theory Spec2Isabelle
  imports Complex_Main
begin

section \<open>Promises and remote API results\<close>

text \<open>
  A promise is modelled by what it settles to: \<open>Fulfilled v\<close> or \<open>Rejected e\<close>. An
  exception thrown inside a \<open>.then\<close> callback rejects the promise of that callback, so it
  is a \<open>Rejected\<close> value as well.
\<close>

datatype 'a settled = Fulfilled 'a | Rejected string

text \<open>
  The value of a remote call, \<open>ConnectionFailure | SynologyResponse\<close>:
  \<open>ConnectionFailure t\<close> carries the failure's \<open>type\<close> field, \<open>Success d\<close> is
  \<open>{success: true, data: d}\<close> and \<open>Failure c\<close> is \<open>{success: false, error: {code: c}}\<close>.
\<close>

datatype 'd synology_result = ConnectionFailure string | Success 'd | Failure int

fun isConnectionFailure :: "'d synology_result \<Rightarrow> bool" where
  "isConnectionFailure (ConnectionFailure t) = True"
| "isConnectionFailure (Success d) = False"
| "isConnectionFailure (Failure c) = False"

fun success :: "'d synology_result \<Rightarrow> bool" where
  "success (Success d) = True"
| "success (ConnectionFailure t) = False"
| "success (Failure c) = False"

fun error_code :: "'d synology_result \<Rightarrow> int option" where
  "error_code (Failure c) = Some c"
| "error_code (ConnectionFailure t) = None"
| "error_code (Success d) = None"

section \<open>The no-permissions retry wrapper (api-actions/shared.ts)\<close>

definition NO_PERMISSIONS_ERROR_CODE :: int where
  "NO_PERMISSIONS_ERROR_CODE = 105"

text \<open>
  \<open>wrapInNoPermissionsRetry(fn)\<close>. The client and the server behind it are a state \<open>'s\<close>:
  \<open>fn args s\<close> is one invocation of the underlying call (what its promise settles to, and
  the state after it), \<open>logout s\<close> is \<open>api.Auth.Logout()\<close>, whose promise the source
  neither awaits nor inspects. A rejection of the first invocation skips the \<open>.then\<close>
  callback and is the wrapper's own rejection.
\<close>

definition wrapInNoPermissionsRetry ::
  "('q \<Rightarrow> 's \<Rightarrow> 'd synology_result settled \<times> 's) \<Rightarrow> ('s \<Rightarrow> 's) \<Rightarrow>
   'q \<Rightarrow> 's \<Rightarrow> 'd synology_result settled \<times> 's" where
  "wrapInNoPermissionsRetry fn logout args s =
     (case fn args s of
        (Rejected e, s1) \<Rightarrow> (Rejected e, s1)
      | (Fulfilled result, s1) \<Rightarrow>
          if \<not> isConnectionFailure result \<and> \<not> success result
             \<and> error_code result = Some NO_PERMISSIONS_ERROR_CODE
          then fn args (logout s1)
          else (Fulfilled result, s1))"

text \<open>
  To count invocations, a client state is paired with the list of the calls made on it,
  oldest first: \<open>recorded fn\<close> is \<open>fn\<close> noting its invocation and arguments,
  \<open>recordedLogout\<close> is the logout noting itself.
\<close>

datatype 'q api_event = Invoked 'q | LoggedOut

definition recorded ::
  "('q \<Rightarrow> 'w \<Rightarrow> 'r \<times> 'w) \<Rightarrow> 'q \<Rightarrow> 'w \<times> 'q api_event list \<Rightarrow> 'r \<times> ('w \<times> 'q api_event list)" where
  "recorded fn args s =
     (case s of (w, evs) \<Rightarrow>
        (case fn args w of (r, w') \<Rightarrow> (r, (w', evs @ [Invoked args]))))"

definition recordedLogout :: "('w \<Rightarrow> 'w) \<Rightarrow> 'w \<times> 'q api_event list \<Rightarrow> 'w \<times> 'q api_event list" where
  "recordedLogout logout s = (case s of (w, evs) \<Rightarrow> (logout w, evs @ [LoggedOut]))"

text \<open>
  A scripted underlying call for running the wrapper: the state is the list of the
  outcomes still to come, each invocation takes the next one (and rejects when the
  script is exhausted).
\<close>

definition scripted :: "unit \<Rightarrow> unit synology_result settled list \<Rightarrow>
    unit synology_result settled \<times> unit synology_result settled list" where
  "scripted args s = (case s of [] \<Rightarrow> (Rejected ''script exhausted'', []) | r # rs \<Rightarrow> (r, rs))"

section \<open>The persisted cache\<close>

text \<open>
  A task as the remote list returns it; only the fields the background core reads are
  kept (\<open>task_id\<close> is the source's \<open>id\<close>).
\<close>

record download_task =
  task_id :: string
  title :: string
  status :: string

text \<open>
  \<open>taskFetchFailureReason\<close> is \<open>null\<close> (here \<open>None\<close>), the string \<open>"missing-config"\<close> or an
  object \<open>{failureMessage}\<close>.
\<close>

datatype failure_reason = MissingConfig | FailureMessage string

record cached_tasks =
  tasks :: "download_task list"
  taskFetchFailureReason :: "failure_reason option"
  tasksLastInitiatedFetchTimestamp :: "int option"
  tasksLastCompletedFetchTimestamp :: "int option"

section \<open>The completion-notification decision of the background handler\<close>

text \<open>
  The stored state the \<open>onStoredStateChange\<close> callback receives: the cache and, of the
  settings, \<open>settings.notifications.enableCompletionNotifications\<close>. The parts of the
  callback before the completion block (client settings, the polling timer, icon and
  badge) neither read nor write \<open>finishedTaskIds\<close>, and with a \<open>badgeDisplayType\<close> of its
  declared type (\<open>"total"\<close> or \<open>"filtered"\<close>) they always reach the block.
\<close>

record stored_state = cached_tasks +
  enableCompletionNotifications :: bool

text \<open>
  A completion notification: \<open>notify(task.title, "Download finished")\<close>, together with the
  task ID the \<open>forEach\<close> was at when it fired.
\<close>

datatype completion_notification = CompletionNotification (for_task: string) (shown_title: string)

text \<open>The guard of the block: a completed-fetch timestamp exists, is after the process
  start and there is no failure reason.\<close>

definition confirmedPoll :: "int \<Rightarrow> stored_state \<Rightarrow> bool" where
  "confirmedPoll START_TIME storedState =
     ((case tasksLastCompletedFetchTimestamp storedState of
         None \<Rightarrow> False
       | Some t \<Rightarrow> t > START_TIME)
      \<and> taskFetchFailureReason storedState = None)"

text \<open>\<open>updatedFinishedTaskIds\<close>: the IDs of the tasks that are finished or seeding.\<close>

definition updatedFinishedTaskIds :: "stored_state \<Rightarrow> string list" where
  "updatedFinishedTaskIds storedState =
     map task_id (filter (\<lambda>t. status t = ''finished'' \<or> status t = ''seeding'') (tasks storedState))"

text \<open>
  The \<open>forEach\<close> over the newly finished IDs. The task is the first one of the list with
  that ID; were there none, reading \<open>task.title\<close> would throw a TypeError (\<open>Inl\<close>), which
  happens only when notifications are enabled.
\<close>

fun notifyNewlyFinished ::
  "bool \<Rightarrow> download_task list \<Rightarrow> string list \<Rightarrow> string + completion_notification list" where
  "notifyNewlyFinished enabled ts [] = Inr []"
| "notifyNewlyFinished enabled ts (i # ids) =
     (case filter (\<lambda>t. task_id t = i) ts of
        [] \<Rightarrow> if enabled then Inl ''TypeError'' else notifyNewlyFinished enabled ts ids
      | task # rest \<Rightarrow>
          (case notifyNewlyFinished enabled ts ids of
             Inl e \<Rightarrow> Inl e
           | Inr ns \<Rightarrow>
               Inr ((if enabled then [CompletionNotification i (title task)] else []) @ ns)))"

text \<open>
  The block itself, on the module variable \<open>finishedTaskIds\<close> (\<open>None\<close> is \<open>undefined\<close>): the
  new value of the variable and the notifications fired, or the exception thrown.
\<close>

definition onStoredStateChange ::
  "int \<Rightarrow> stored_state \<Rightarrow> string list option \<Rightarrow>
   string + (string list option \<times> completion_notification list)" where
  "onStoredStateChange START_TIME storedState finishedTaskIds =
     (if confirmedPoll START_TIME storedState then
        (case (case finishedTaskIds of
                 None \<Rightarrow> Inr []
               | Some fin \<Rightarrow>
                   notifyNewlyFinished (enableCompletionNotifications storedState) (tasks storedState)
                     (filter (\<lambda>i. i \<notin> set fin) (updatedFinishedTaskIds storedState))) of
           Inl e \<Rightarrow> Inl e
         | Inr ns \<Rightarrow>
             Inr (Some ((case finishedTaskIds of None \<Rightarrow> [] | Some fin \<Rightarrow> fin) @
                    filter (\<lambda>taskId. case finishedTaskIds of None \<Rightarrow> True | Some fin \<Rightarrow> taskId \<notin> set fin)
                      (updatedFinishedTaskIds storedState)),
                  ns))
      else Inr (finishedTaskIds, []))"

text \<open>
  The process lifetime: the callback runs once per cache-change event, in order, starting
  from \<open>finishedTaskIds = undefined\<close>. An exception leaves the variable as it was (the
  assignment comes after the loop). The result is the final value of the variable and
  all the notifications fired.
\<close>

fun runHandler ::
  "int \<Rightarrow> string list option \<Rightarrow> stored_state list \<Rightarrow>
   string list option \<times> completion_notification list" where
  "runHandler START_TIME fin [] = (fin, [])"
| "runHandler START_TIME fin (ev # evs) =
     (case onStoredStateChange START_TIME ev fin of
        Inl e \<Rightarrow> runHandler START_TIME fin evs
      | Inr (fin', ns) \<Rightarrow>
          (case runHandler START_TIME fin' evs of (fin'', ms) \<Rightarrow> (fin'', ns @ ms)))"

text \<open>The tracked terminal-ID set held by the variable.\<close>

definition tracked :: "string list option \<Rightarrow> string set" where
  "tracked fin = (case fin of None \<Rightarrow> {} | Some ids \<Rightarrow> set ids)"

text \<open>Stored states for the scenarios: one task \<open>"1"\<close> with the given status, fetched at
  the given time with no failure.\<close>

definition pollOf :: "int \<Rightarrow> string \<Rightarrow> stored_state" where
  "pollOf t st =
     \<lparr>tasks = [\<lparr>task_id = ''1'', title = ''ubuntu.iso'', status = st\<rparr>],
      taskFetchFailureReason = None,
      tasksLastInitiatedFetchTimestamp = Some t,
      tasksLastCompletedFetchTimestamp = Some t,
      enableCompletionNotifications = True\<rparr>"

section \<open>The world of the actions module\<close>

text \<open>\<open>Partial<CachedTasks>\<close>: each key is absent (\<open>None\<close>) or present with a value.\<close>

record cached_tasks_partial =
  set_tasks :: "download_task list option"
  set_taskFetchFailureReason :: "failure_reason option option"
  set_tasksLastInitiatedFetchTimestamp :: "int option option"
  set_tasksLastCompletedFetchTimestamp :: "int option option"

definition noKeys :: cached_tasks_partial where
  "noKeys = \<lparr>set_tasks = None, set_taskFetchFailureReason = None,
     set_tasksLastInitiatedFetchTimestamp = None, set_tasksLastCompletedFetchTimestamp = None\<rparr>"

text \<open>The object spread \<open>{...a, ...b}\<close>: a key of \<open>b\<close> wins over the same key of \<open>a\<close>.\<close>

definition spread :: "cached_tasks_partial \<Rightarrow> cached_tasks_partial \<Rightarrow> cached_tasks_partial" where
  "spread a b =
     \<lparr>set_tasks = (case set_tasks b of None \<Rightarrow> set_tasks a | Some v \<Rightarrow> Some v),
      set_taskFetchFailureReason =
        (case set_taskFetchFailureReason b of None \<Rightarrow> set_taskFetchFailureReason a | Some v \<Rightarrow> Some v),
      set_tasksLastInitiatedFetchTimestamp =
        (case set_tasksLastInitiatedFetchTimestamp b of
           None \<Rightarrow> set_tasksLastInitiatedFetchTimestamp a | Some v \<Rightarrow> Some v),
      set_tasksLastCompletedFetchTimestamp =
        (case set_tasksLastCompletedFetchTimestamp b of
           None \<Rightarrow> set_tasksLastCompletedFetchTimestamp a | Some v \<Rightarrow> Some v)\<rparr>"

text \<open>What a committed \<open>browser.storage.local.set(p)\<close> does to the cache: the keys of \<open>p\<close>
  replace the stored ones, the others stay.\<close>

definition storageMerge :: "cached_tasks_partial \<Rightarrow> cached_tasks \<Rightarrow> cached_tasks" where
  "storageMerge p c =
     \<lparr>tasks = (case set_tasks p of None \<Rightarrow> tasks c | Some v \<Rightarrow> v),
      taskFetchFailureReason =
        (case set_taskFetchFailureReason p of None \<Rightarrow> taskFetchFailureReason c | Some v \<Rightarrow> v),
      tasksLastInitiatedFetchTimestamp =
        (case set_tasksLastInitiatedFetchTimestamp p of
           None \<Rightarrow> tasksLastInitiatedFetchTimestamp c | Some v \<Rightarrow> v),
      tasksLastCompletedFetchTimestamp =
        (case set_tasksLastCompletedFetchTimestamp p of
           None \<Rightarrow> tasksLastCompletedFetchTimestamp c | Some v \<Rightarrow> v)\<rparr>"

text \<open>Requests and items of the remote client.\<close>

record list_request =
  offset :: int
  limit :: int
  additional :: "string list"
  timeout :: int

record blob =
  blob_parts :: string
  blob_type :: string

record form_file =
  content :: blob
  filename :: string

record create_request =
  file_items :: "form_file list"
  uri :: "string list"
  destination :: "string option"

datatype api_call = TaskListCall list_request | TaskCreateCall create_request | AuthLogoutCall

record http_response =
  headers :: "string \<Rightarrow> string option"
  body :: string

datatype http_request = Head string | Get string

datatype notification_event =
  NotificationCreated nat string "string option"
| NotificationUpdated nat string "string option"

text \<open>The result of the unary plus on a header value: a JavaScript number.\<close>

datatype js_number = NaN | NegInfinity | Finite rat | PosInfinity

text \<open>
  Everything the module acts on: the remote client with the server behind it (\<open>server\<close>,
  of any type) and the calls made on it; the persisted cache and every
  \<open>storage.local.set\<close> issued, with its payload and whether it was committed; how many
  times \<open>Date.now()\<close> was read; what was logged as an unexpected error; the HTTP requests
  sent; the notifications shown.
\<close>

record 'w world =
  server :: 'w
  apiCalls :: "api_call list"
  storage :: cached_tasks
  storageLog :: "(cached_tasks_partial \<times> bool) list"
  clockReads :: nat
  errorLog :: "string list"
  httpLog :: "http_request list"
  notificationLog :: "notification_event list"
  nextNotificationId :: nat

text \<open>
  What the module does not decide: how the remote calls settle (as functions of the
  server state), the clock (\<open>dateNow k\<close> is the value of the \<open>k\<close>-th reading of
  \<open>Date.now()\<close>), whether the \<open>k\<close>-th \<open>storage.local.set\<close> rejects, how the HTTP requests
  settle, and the functions of modules that are not part of these sources
  (\<open>errorMessageFromCode\<close>, \<open>errorMessageFromConnectionFailure\<close> of \<open>apiErrors\<close>; the
  conversion of a string to a number by the unary plus).
\<close>

record 'w env =
  taskList :: "list_request \<Rightarrow> 'w \<Rightarrow> download_task list synology_result settled \<times> 'w"
  taskCreate :: "create_request \<Rightarrow> 'w \<Rightarrow> unit synology_result settled \<times> 'w"
  authLogout :: "'w \<Rightarrow> 'w"
  dateNow :: "nat \<Rightarrow> int"
  storageSetRejects :: "nat \<Rightarrow> bool"
  errorMessageFromCode :: "int \<Rightarrow> string \<Rightarrow> string"
  errorMessageFromConnectionFailure :: "string \<Rightarrow> string"
  axiosHead :: "string \<Rightarrow> http_response settled"
  axiosGet :: "string \<Rightarrow> http_response settled"
  toNumber :: "string \<Rightarrow> js_number"

definition readClock :: "'w env \<Rightarrow> 'w world \<Rightarrow> int \<times> 'w world" where
  "readClock env w = (dateNow env (clockReads w), w\<lparr>clockReads := Suc (clockReads w)\<rparr>)"

definition storageSet :: "'w env \<Rightarrow> cached_tasks_partial \<Rightarrow> 'w world \<Rightarrow> unit settled \<times> 'w world" where
  "storageSet env p w =
     (if storageSetRejects env (length (storageLog w))
      then (Rejected ''storage.local.set rejected'', w\<lparr>storageLog := storageLog w @ [(p, False)]\<rparr>)
      else (Fulfilled (),
            w\<lparr>storage := storageMerge p (storage w), storageLog := storageLog w @ [(p, True)]\<rparr>))"

definition apiTaskList ::
  "'w env \<Rightarrow> list_request \<Rightarrow> 'w world \<Rightarrow> download_task list synology_result settled \<times> 'w world" where
  "apiTaskList env req w =
     (case taskList env req (server w) of
        (r, sv) \<Rightarrow> (r, w\<lparr>server := sv, apiCalls := apiCalls w @ [TaskListCall req]\<rparr>))"

definition apiTaskCreate ::
  "'w env \<Rightarrow> create_request \<Rightarrow> 'w world \<Rightarrow> unit synology_result settled \<times> 'w world" where
  "apiTaskCreate env req w =
     (case taskCreate env req (server w) of
        (r, sv) \<Rightarrow> (r, w\<lparr>server := sv, apiCalls := apiCalls w @ [TaskCreateCall req]\<rparr>))"

definition apiLogout :: "'w env \<Rightarrow> 'w world \<Rightarrow> 'w world" where
  "apiLogout env w = w\<lparr>server := authLogout env (server w), apiCalls := apiCalls w @ [AuthLogoutCall]\<rparr>"

text \<open>Promise plumbing: \<open>p.then(f)\<close>, \<open>p.catch(h)\<close> and \<open>Promise.all([a, b])\<close> of two
  operations started one after the other.\<close>

definition thenDo :: "'a settled \<times> 's \<Rightarrow> ('a \<Rightarrow> 's \<Rightarrow> 'b settled \<times> 's) \<Rightarrow> 'b settled \<times> 's" where
  "thenDo p f = (case p of (Fulfilled v, s) \<Rightarrow> f v s | (Rejected e, s) \<Rightarrow> (Rejected e, s))"

definition catchDo :: "'a settled \<times> 's \<Rightarrow> (string \<Rightarrow> 's \<Rightarrow> 'a settled \<times> 's) \<Rightarrow> 'a settled \<times> 's" where
  "catchDo p h = (case p of (Fulfilled v, s) \<Rightarrow> (Fulfilled v, s) | (Rejected e, s) \<Rightarrow> h e s)"

definition promiseAll2 ::
  "('s \<Rightarrow> 'a settled \<times> 's) \<Rightarrow> ('s \<Rightarrow> 'b settled \<times> 's) \<Rightarrow> 's \<Rightarrow> ('a \<times> 'b) settled \<times> 's" where
  "promiseAll2 f g s =
     (case f s of (a, s1) \<Rightarrow>
        (case g s1 of (b, s2) \<Rightarrow>
           (case a of
              Rejected e \<Rightarrow> (Rejected e, s2)
            | Fulfilled x \<Rightarrow>
                (case b of Rejected e \<Rightarrow> (Rejected e, s2) | Fulfilled y \<Rightarrow> (Fulfilled (x, y), s2)))))"

section \<open>The poll coordinator (pollTasks)\<close>

text \<open>The options of the task-list call: all tasks from offset 0, with transfer data,
  and a timeout of 20 s.\<close>

definition taskListOptions :: list_request where
  "taskListOptions = \<lparr>offset = 0, limit = - 1, additional = [''transfer''], timeout = 20000\<rparr>"

definition doTaskPoll :: "'w env \<Rightarrow> 'w world \<Rightarrow> download_task list synology_result settled \<times> 'w world" where
  "doTaskPoll env =
     wrapInNoPermissionsRetry (\<lambda>u. apiTaskList env taskListOptions) (apiLogout env) ()"

text \<open>
  \<open>pollTasks\<close> below follows the source: the clock is read for \<open>cachedTasksInit\<close>, the
  write of it and the wrapped list call are started and awaited together, the \<open>.then\<close>
  callback classifies the response (connection failure with its two sub-cases, success,
  error: the source's \<open>if\<close> chain, here the three shapes of a result), and the final
  \<open>.catch\<close> logs whatever was rejected or thrown before it and fulfils.
\<close>

text \<open>\<open>setCachedTasksResponse\<close>: reads the clock when called, and writes that time with the
  given keys in one \<open>storage.local.set\<close>.\<close>

definition setCachedTasksResponse ::
  "'w env \<Rightarrow> cached_tasks_partial \<Rightarrow> 'w world \<Rightarrow> unit settled \<times> 'w world" where
  "setCachedTasksResponse env cachedTasks w =
     (case readClock env w of
        (now, w') \<Rightarrow>
          storageSet env
            (spread (noKeys\<lparr>set_tasksLastCompletedFetchTimestamp := Some (Some now)\<rparr>) cachedTasks) w')"

definition pollTasks :: "'w env \<Rightarrow> 'w world \<Rightarrow> unit settled \<times> 'w world" where
  "pollTasks env w =
     (case readClock env w of
        (now, w0) \<Rightarrow>
          let cachedTasksInit = noKeys\<lparr>set_tasksLastInitiatedFetchTimestamp := Some (Some now)\<rparr> in
          catchDo
            (thenDo (promiseAll2 (storageSet env cachedTasksInit) (doTaskPoll env) w0)
               (\<lambda>(u, response).
                  case response of
                    ConnectionFailure t \<Rightarrow>
                      if t = ''missing-config'' then
                        setCachedTasksResponse env
                          (noKeys\<lparr>set_taskFetchFailureReason := Some (Some MissingConfig)\<rparr>)
                      else
                        setCachedTasksResponse env
                          (noKeys\<lparr>set_taskFetchFailureReason :=
                             Some (Some (FailureMessage (errorMessageFromConnectionFailure env t)))\<rparr>)
                  | Success d \<Rightarrow>
                      setCachedTasksResponse env
                        (noKeys\<lparr>set_tasks := Some d, set_taskFetchFailureReason := Some None\<rparr>)
                  | Failure c \<Rightarrow>
                      setCachedTasksResponse env
                        (noKeys\<lparr>set_taskFetchFailureReason :=
                           Some (Some (FailureMessage (errorMessageFromCode env c ''DownloadStation.Task'')))\<rparr>)))
            (\<lambda>error w'. (Fulfilled (), w'\<lparr>errorLog := errorLog w' @ [error]\<rparr>)))"

text \<open>
  What the wrapped task-list call settles to, as a function of the server state alone:
  the wrapper run directly on the client.
\<close>

definition taskPollOutcome :: "'w env \<Rightarrow> 'w \<Rightarrow> download_task list synology_result settled" where
  "taskPollOutcome env sv =
     fst (wrapInNoPermissionsRetry (\<lambda>u. taskList env taskListOptions) (authLogout env) () sv)"

text \<open>
  For stating what a poll wrote: the payload of the second \<open>storage.local.set\<close> of a poll
  whose response was \<open>response\<close> and whose second clock reading was \<open>now\<close>.
\<close>

definition resultWrite :: "'w env \<Rightarrow> int \<Rightarrow> download_task list synology_result \<Rightarrow> cached_tasks_partial" where
  "resultWrite env now response =
     (case response of
        ConnectionFailure t \<Rightarrow>
          \<lparr>set_tasks = None,
           set_taskFetchFailureReason =
             Some (Some (if t = ''missing-config'' then MissingConfig
                         else FailureMessage (errorMessageFromConnectionFailure env t))),
           set_tasksLastInitiatedFetchTimestamp = None,
           set_tasksLastCompletedFetchTimestamp = Some (Some now)\<rparr>
      | Success d \<Rightarrow>
          \<lparr>set_tasks = Some d,
           set_taskFetchFailureReason = Some None,
           set_tasksLastInitiatedFetchTimestamp = None,
           set_tasksLastCompletedFetchTimestamp = Some (Some now)\<rparr>
      | Failure c \<Rightarrow>
          \<lparr>set_tasks = None,
           set_taskFetchFailureReason =
             Some (Some (FailureMessage (errorMessageFromCode env c ''DownloadStation.Task''))),
           set_tasksLastInitiatedFetchTimestamp = None,
           set_tasksLastCompletedFetchTimestamp = Some (Some now)\<rparr>)"

text \<open>The payload of the first one: only the initiation time.\<close>

definition initWrite :: "int \<Rightarrow> cached_tasks_partial" where
  "initWrite now =
     \<lparr>set_tasks = None, set_taskFetchFailureReason = None,
      set_tasksLastInitiatedFetchTimestamp = Some (Some now),
      set_tasksLastCompletedFetchTimestamp = None\<rparr>"

section \<open>The submission pipeline (addDownloadTasksAndPoll)\<close>

subsection \<open>Strings\<close>

fun startsWith :: "string \<Rightarrow> string \<Rightarrow> bool" where
  "startsWith s [] = True"
| "startsWith [] (p # ps) = False"
| "startsWith (c # cs) (p # ps) = (c = p \<and> startsWith cs ps)"

definition endsWith :: "string \<Rightarrow> string \<Rightarrow> bool" where
  "endsWith s e = startsWith (rev s) (rev e)"

text \<open>\<open>s.indexOf(p) !== -1\<close>.\<close>

fun containsText :: "string \<Rightarrow> string \<Rightarrow> bool" where
  "containsText [] p = (p = [])"
| "containsText (c # cs) p = (startsWith (c # cs) p \<or> containsText cs p)"

text \<open>\<open>toLowerCase\<close> on the letters A to Z; the media types it is compared with are made
  of lower-case ASCII letters and signs only.\<close>

definition toLowerChar :: "char \<Rightarrow> char" where
  "toLowerChar c =
     (if 65 \<le> (of_char c :: nat) \<and> (of_char c :: nat) \<le> 90 then char_of (of_char c + 32 :: nat) else c)"

definition toLowerCase :: "string \<Rightarrow> string" where
  "toLowerCase s = map toLowerChar s"

text \<open>The decimal digits of a number, as a template string prints \<open>urls.length\<close>.\<close>

function showNat :: "nat \<Rightarrow> string" where
  "showNat n = (if n < 10 then [char_of (48 + n)] else showNat (n div 10) @ [char_of (48 + n mod 10)])"
  by pat_completeness auto
termination
  by (relation "measure id") auto

declare showNat.simps [simp del]

subsection \<open>Constants\<close>

definition AUTO_DOWNLOAD_TORRENT_FILE_PROTOCOLS :: "string list" where
  "AUTO_DOWNLOAD_TORRENT_FILE_PROTOCOLS = [''http'', ''https'']"

definition DOWNLOADABLE_PROTOCOLS :: "string list" where
  "DOWNLOADABLE_PROTOCOLS =
     [''http'', ''https'', ''ftp'', ''ftps'', ''magnet'', ''thunder'', ''flashget'', ''qqdl'']"

record metadata_file_type =
  mediaType :: string
  extension :: string

definition METADATA_FILE_TYPES :: "metadata_file_type list" where
  "METADATA_FILE_TYPES =
     [\<lparr>mediaType = ''application/x-bittorrent'', extension = ''.torrent''\<rparr>,
      \<lparr>mediaType = ''application/x-nzb'', extension = ''.nzb''\<rparr>]"

definition ARBITRARY_FILE_FETCH_SIZE_CUTOFF :: int where
  "ARBITRARY_FILE_FETCH_SIZE_CUTOFF = 1024 * 1024 * 5"

definition startsWithAnyProtocol :: "string \<Rightarrow> string list \<Rightarrow> bool" where
  "startsWithAnyProtocol url protocols = list_ex (\<lambda>protocol. startsWith url (protocol @ '':'')) protocols"

subsection \<open>The file name of a fetched metadata file\<close>

text \<open>
  \<open>FILENAME_PROPERTY_REGEX = /filename=("([^"]+)"|([^"][^ ]+))/\<close>. After \<open>filename=\<close> the
  first alternative needs a double quote (character 34), one or more characters other
  than a double quote, and a closing double quote (group 2 is what stands between); the
  second needs one character other than a double quote followed by one or more
  characters other than a space, as many as there are (group 3 is all of them). A text
  starting with a double quote can only match the first alternative.
  \<open>matchFilenameValue\<close> is given the text after \<open>filename=\<close> and returns the group.
\<close>

definition matchFilenameValue :: "string \<Rightarrow> string option" where
  "matchFilenameValue rest =
     (case rest of
        [] \<Rightarrow> None
      | c # cs \<Rightarrow>
          if c = CHR 0x22 then
            (let v = takeWhile (\<lambda>x. x \<noteq> CHR 0x22) cs in
             if v \<noteq> [] \<and> dropWhile (\<lambda>x. x \<noteq> CHR 0x22) cs \<noteq> [] then Some v else None)
          else
            (let v = takeWhile (\<lambda>x. x \<noteq> CHR '' '') cs in
             if v \<noteq> [] then Some (c # v) else None))"

text \<open>The search of \<open>exec\<close> for a key followed by a value: the match at the leftmost
  position where there is one.\<close>

fun matchAfter :: "string \<Rightarrow> string \<Rightarrow> string option" where
  "matchAfter key [] = None"
| "matchAfter key (c # cs) =
     (if startsWith (c # cs) key then
        (case matchFilenameValue (drop (length key) (c # cs)) of
           Some v \<Rightarrow> Some v
         | None \<Rightarrow> matchAfter key cs)
      else matchAfter key cs)"

text \<open>\<open>FILENAME_PROPERTY_REGEX.exec(s)\<close>, reduced to \<open>regexMatch[2] || regexMatch[3]\<close>;
  \<open>None\<close> when \<open>exec\<close> returns null.\<close>

definition filenamePropertyExec :: "string \<Rightarrow> string option" where
  "filenamePropertyExec s = matchAfter ''filename='' s"

text \<open>\<open>s.slice(s.lastIndexOf('/') + 1)\<close>: what follows the last slash, all of \<open>s\<close> when it
  has none.\<close>

definition afterLastSlash :: "string \<Rightarrow> string" where
  "afterLastSlash s = rev (takeWhile (\<lambda>c. c \<noteq> CHR ''/'') (rev s))"

definition guessFileName :: "string \<Rightarrow> (string \<Rightarrow> string option) \<Rightarrow> metadata_file_type \<Rightarrow> string" where
  "guessFileName urlWithoutQuery hdrs metadataFileType =
     (let maybeFilename =
            (case hdrs ''content-disposition'' of
               None \<Rightarrow> Some (afterLastSlash urlWithoutQuery)
             | Some contentDisposition \<Rightarrow>
                 if contentDisposition \<noteq> [] \<and> containsText contentDisposition ''filename=''
                 then filenamePropertyExec contentDisposition
                 else Some (afterLastSlash urlWithoutQuery));
          name = (case maybeFilename of
                    None \<Rightarrow> ''download''
                  | Some f \<Rightarrow> if f = [] then ''download'' else f)
      in if endsWith name (extension metadataFileType) then name
         else name @ extension metadataFileType)"

subsection \<open>Resolving one URL\<close>

datatype task_item = FormFile form_file | Url string

fun isNaN :: "js_number \<Rightarrow> bool" where
  "isNaN NaN = True"
| "isNaN NegInfinity = False"
| "isNaN (Finite q) = False"
| "isNaN PosInfinity = False"

fun jsLess :: "js_number \<Rightarrow> int \<Rightarrow> bool" where
  "jsLess NaN c = False"
| "jsLess NegInfinity c = True"
| "jsLess (Finite q) c = (q < of_int c)"
| "jsLess PosInfinity c = False"

text \<open>The unary plus on a header value that may be missing: \<open>+undefined\<close> is NaN.\<close>

definition unaryPlus :: "'w env \<Rightarrow> string option \<Rightarrow> js_number" where
  "unaryPlus env v = (case v of None \<Rightarrow> NaN | Some s \<Rightarrow> toNumber env s)"

text \<open>
  \<open>maybeMapUrlToFile(url)\<close>: what its promise settles to, and the HTTP requests it sent.
  A rejected HEAD or GET rejects the promise. Calling \<open>toLowerCase\<close> on a missing
  \<open>content-type\<close> header throws a TypeError in the \<open>.then\<close> callback, which rejects the
  promise as well.
\<close>

definition maybeMapUrlToFile :: "'w env \<Rightarrow> string \<Rightarrow> task_item settled \<times> http_request list" where
  "maybeMapUrlToFile env url =
     (if startsWithAnyProtocol url AUTO_DOWNLOAD_TORRENT_FILE_PROTOCOLS then
        (case axiosHead env url of
           Rejected e \<Rightarrow> (Rejected e, [Head url])
         | Fulfilled response \<Rightarrow>
             (case headers response ''content-type'' of
                None \<Rightarrow> (Rejected ''TypeError'', [Head url])
              | Some ct \<Rightarrow>
                  let contentType = toLowerCase ct;
                      contentLength = headers response ''content-length'';
                      urlWithoutQuery = (if CHR ''?'' \<in> set url
                                         then takeWhile (\<lambda>c. c \<noteq> CHR ''?'') url else url);
                      metadataFileType =
                        find (\<lambda>fileType. contentType = mediaType fileType
                                \<or> endsWith urlWithoutQuery (extension fileType))
                          METADATA_FILE_TYPES
                  in (case metadataFileType of
                        None \<Rightarrow> (Fulfilled (Url url), [Head url])
                      | Some fileType \<Rightarrow>
                          if \<not> isNaN (unaryPlus env contentLength)
                             \<and> jsLess (unaryPlus env contentLength) ARBITRARY_FILE_FETCH_SIZE_CUTOFF
                          then
                            (case axiosGet env url of
                               Rejected e \<Rightarrow> (Rejected e, [Head url, Get url])
                             | Fulfilled got \<Rightarrow>
                                 (Fulfilled (FormFile
                                    \<lparr>content = \<lparr>blob_parts = body got, blob_type = mediaType fileType\<rparr>,
                                     filename = guessFileName urlWithoutQuery (headers got) fileType\<rparr>),
                                  [Head url, Get url]))
                          else (Fulfilled (Url url), [Head url]))))
      else (Fulfilled (Url url), []))"

definition rejectUnknownUrls :: "task_item settled \<Rightarrow> task_item settled" where
  "rejectUnknownUrls taskPromise =
     (case taskPromise of
        Rejected e \<Rightarrow> Rejected e
      | Fulfilled (FormFile f) \<Rightarrow> Fulfilled (FormFile f)
      | Fulfilled (Url task) \<Rightarrow>
          if startsWithAnyProtocol task DOWNLOADABLE_PROTOCOLS then Fulfilled (Url task)
          else Rejected ''URL must start with one of the downloadable protocols'')"

text \<open>\<open>partitionPromises\<close>: the values of the fulfilled promises and the errors of the
  rejected ones, each in the order of the list.\<close>

fun partitionPromises :: "'a settled list \<Rightarrow> 'a list \<times> string list" where
  "partitionPromises [] = ([], [])"
| "partitionPromises (p # ps) =
     (case partitionPromises ps of
        (resolved, rejected) \<Rightarrow>
          (case p of
             Fulfilled v \<Rightarrow> (v # resolved, rejected)
           | Rejected e \<Rightarrow> (resolved, e # rejected)))"

text \<open>The \<open>reduce\<close> that splits the resolved items into \<open>file\<close> and \<open>uri\<close>.\<close>

fun splitItems :: "task_item list \<Rightarrow> form_file list \<times> string list" where
  "splitItems [] = ([], [])"
| "splitItems (FormFile f # items) = (case splitItems items of (fs, us) \<Rightarrow> (f # fs, us))"
| "splitItems (Url u # items) = (case splitItems items of (fs, us) \<Rightarrow> (fs, u # us))"

subsection \<open>Notifications\<close>

text \<open>
  Modelled from the spec: \<open>notify\<close> of the module \<open>browserApi\<close>, which is not part of these
  sources. The spec gives \<open>notify(title, body?, idOrKind?) -> notificationId\<close>, which
  "supports update-in-place by reusing an identity": called without an identity it
  creates a notification under a fresh one, called with one it updates that
  notification; it returns the identity.
\<close>

definition notify :: "string \<Rightarrow> string option \<Rightarrow> nat option \<Rightarrow> 'w world \<Rightarrow> nat \<times> 'w world" where
  "notify ttl message ident w =
     (case ident of
        None \<Rightarrow>
          (nextNotificationId w,
           w\<lparr>notificationLog := notificationLog w @ [NotificationCreated (nextNotificationId w) ttl message],
             nextNotificationId := Suc (nextNotificationId w)\<rparr>)
      | Some i \<Rightarrow> (i, w\<lparr>notificationLog := notificationLog w @ [NotificationUpdated i ttl message]\<rparr>))"

subsection \<open>The pipeline\<close>

definition doCreateTask :: "'w env \<Rightarrow> create_request \<Rightarrow> 'w world \<Rightarrow> unit synology_result settled \<times> 'w world" where
  "doCreateTask env = wrapInNoPermissionsRetry (apiTaskCreate env) (apiLogout env)"

text \<open>
  \<open>notifyTaskAddResult(filename)(result)\<close>, as the source defines it. Nothing in the source
  calls it: the chain after \<open>doCreateTask\<close> is \<open>.then(pollOnResponse)\<close> only.
\<close>

definition notifyTaskAddResult ::
  "'w env \<Rightarrow> string list \<Rightarrow> nat option \<Rightarrow> string option \<Rightarrow> unit synology_result \<Rightarrow> 'w world \<Rightarrow> 'w world" where
  "notifyTaskAddResult env urls notificationId fname result w =
     (case result of
        ConnectionFailure t \<Rightarrow>
          snd (notify ''Failed to connection to DiskStation'' (Some ''Please check your settings.'')
                 notificationId w)
      | Success d \<Rightarrow>
          if length urls = 1 then
            snd (notify ''Download added''
                   (Some (case fname of None \<Rightarrow> hd urls | Some f \<Rightarrow> if f = [] then hd urls else f))
                   notificationId w)
          else snd (notify (showNat (length urls) @ '' downloads added'') None notificationId w)
      | Failure c \<Rightarrow>
          snd (notify ''Failed to add download''
                 (Some (errorMessageFromCode env c ''DownloadStation.Task'')) notificationId w))"

definition notifyUnexpectedError :: "nat option \<Rightarrow> string \<Rightarrow> 'w world \<Rightarrow> unit settled \<times> 'w world" where
  "notifyUnexpectedError notificationId error w =
     (Fulfilled (),
      snd (notify ''Failed to add download''
             (Some ''Unexpected error; please check your settings and try again'')
             notificationId (w\<lparr>errorLog := errorLog w @ [error]\<rparr>)))"

text \<open>\<open>const destination = path && path.startsWith('/') ? path.slice(1) : undefined\<close>.\<close>

definition destinationOf :: "string option \<Rightarrow> string option" where
  "destinationOf path =
     (case path of
        None \<Rightarrow> None
      | Some p \<Rightarrow> if p \<noteq> [] \<and> startsWith p ''/'' then Some (tl p) else None)"

text \<open>
  \<open>addDownloadTasksAndPoll(api, urls, path)\<close>. The URLs are resolved independently; the
  requests they send are noted URL by URL. \<open>partitionPromises\<close> never rejects; the final
  \<open>.catch\<close> therefore sees a rejection of \<open>doCreateTask\<close> only (\<open>pollTasks\<close> never rejects).
\<close>

definition addDownloadTasksAndPoll ::
  "'w env \<Rightarrow> string list \<Rightarrow> string option \<Rightarrow> 'w world \<Rightarrow> unit settled \<times> 'w world" where
  "addDownloadTasksAndPoll env urls path w =
     (if urls \<noteq> [] then
        (case (if length urls = 1 then notify ''Adding download...'' (Some (hd urls)) None w
               else notify (''Adding '' @ showNat (length urls) @ '' downloads...'') None None w) of
           (notificationId, w1) \<Rightarrow>
             let destination = destinationOf path;
                 w2 = w1\<lparr>httpLog := httpLog w1 @ concat (map (\<lambda>url. snd (maybeMapUrlToFile env url)) urls)\<rparr>
             in (case partitionPromises
                        (map (\<lambda>url. rejectUnknownUrls (fst (maybeMapUrlToFile env url))) urls) of
                   (resolved, rejected) \<Rightarrow>
                     catchDo
                       (if resolved = [] then (Fulfilled (), w2)
                        else
                          (case splitItems resolved of
                             (fs, us) \<Rightarrow>
                               thenDo
                                 (doCreateTask env
                                    \<lparr>file_items = fs, uri = us, destination = destination\<rparr> w2)
                                 (\<lambda>result. pollTasks env)))
                       (notifyUnexpectedError (Some notificationId))))
      else
        (case notify ''Failed to add download'' (Some ''No URL to download given'') None w of
           (i, w') \<Rightarrow> (Fulfilled (), w')))"

subsection \<open>What a submission did\<close>

text \<open>
  For stating what a submission did: what the wrapped create call settles to, as a
  function of the server state alone; the items of a submission that resolved; and the
  title and the message of the notification a submission starts with.
\<close>

definition createOutcome :: "'w env \<Rightarrow> create_request \<Rightarrow> 'w \<Rightarrow> unit synology_result settled" where
  "createOutcome env req sv = fst (wrapInNoPermissionsRetry (taskCreate env) (authLogout env) req sv)"

definition resolvedItems :: "'w env \<Rightarrow> string list \<Rightarrow> task_item list" where
  "resolvedItems env urls =
     fst (partitionPromises (map (\<lambda>url. rejectUnknownUrls (fst (maybeMapUrlToFile env url))) urls))"

definition createRequestOf :: "'w env \<Rightarrow> string list \<Rightarrow> string option \<Rightarrow> create_request" where
  "createRequestOf env urls path =
     \<lparr>file_items = fst (splitItems (resolvedItems env urls)),
      uri = snd (splitItems (resolvedItems env urls)),
      destination = destinationOf path\<rparr>"

definition startNotification :: "string list \<Rightarrow> nat \<Rightarrow> notification_event" where
  "startNotification urls i =
     (if length urls = 1 then NotificationCreated i ''Adding download...'' (Some (hd urls))
      else NotificationCreated i (''Adding '' @ showNat (length urls) @ '' downloads...'') None)"

section \<open>A concrete environment, for running the model\<close>

text \<open>
  A conversion that agrees with the unary plus on strings of decimal digits and on the
  empty string (\<open>+""\<close> is 0). On every other string it answers NaN, which the unary
  plus does not always do (\<open>+"1e3"\<close> is 1000): it stands for \<open>toNumber\<close> only where the model
  is run on header values made of digits.
\<close>

fun decimalValue :: "string \<Rightarrow> nat \<Rightarrow> nat option" where
  "decimalValue [] acc = Some acc"
| "decimalValue (c # cs) acc =
     (if 48 \<le> (of_char c :: nat) \<and> (of_char c :: nat) \<le> 57
      then decimalValue cs (10 * acc + (of_char c - 48))
      else None)"

definition decimalToNumber :: "string \<Rightarrow> js_number" where
  "decimalToNumber s = (case decimalValue s 0 of None \<Rightarrow> NaN | Some n \<Rightarrow> Finite (of_nat n))"

text \<open>
  The server is a pair of scripts: the outcomes of the task-list calls still to come and
  those of the create calls (a call on an exhausted script rejects). The clock shows
  1000, 1010, 1020, ... at its successive readings. The HTTP behaviour and the writes
  that reject are given.
\<close>

type_synonym demo_server =
  "download_task list synology_result settled list \<times> unit synology_result settled list"

definition demoEnv ::
  "(string \<Rightarrow> http_response settled) \<Rightarrow> (string \<Rightarrow> http_response settled) \<Rightarrow> (nat \<Rightarrow> bool) \<Rightarrow> demo_server env" where
  "demoEnv hd_of get_of rejects =
     \<lparr>taskList = (\<lambda>req sv. case fst sv of
                     [] \<Rightarrow> (Rejected ''no response'', sv)
                   | r # rs \<Rightarrow> (r, (rs, snd sv))),
      taskCreate = (\<lambda>req sv. case snd sv of
                     [] \<Rightarrow> (Rejected ''no response'', sv)
                   | r # rs \<Rightarrow> (r, (fst sv, rs))),
      authLogout = (\<lambda>sv. sv),
      dateNow = (\<lambda>k. 1000 + 10 * int k),
      storageSetRejects = rejects,
      errorMessageFromCode = (\<lambda>c ns. ''error code in '' @ ns),
      errorMessageFromConnectionFailure = (\<lambda>t. ''connection failure: '' @ t),
      axiosHead = hd_of,
      axiosGet = get_of,
      toNumber = decimalToNumber\<rparr>"

text \<open>The world at the start: the empty cache of \<open>clearCachedTasks\<close>, nothing logged.\<close>

definition demoWorld :: "demo_server \<Rightarrow> demo_server world" where
  "demoWorld sv =
     \<lparr>server = sv, apiCalls = [],
      storage = \<lparr>tasks = [], taskFetchFailureReason = None,
                  tasksLastInitiatedFetchTimestamp = None, tasksLastCompletedFetchTimestamp = None\<rparr>,
      storageLog = [], clockReads = 0, errorLog = [], httpLog = [],
      notificationLog = [], nextNotificationId = 0\<rparr>"

definition noHttp :: "string \<Rightarrow> http_response settled" where
  "noHttp url = Rejected ''Network Error''"

definition demoTask :: download_task where
  "demoTask = \<lparr>task_id = ''1'', title = ''ubuntu.iso'', status = ''downloading''\<rparr>"

text \<open>The torrent file type, and header maps for the examples.\<close>

definition torrentType :: metadata_file_type where
  "torrentType = \<lparr>mediaType = ''application/x-bittorrent'', extension = ''.torrent''\<rparr>"

definition noHeaders :: "string \<Rightarrow> string option" where
  "noHeaders name = None"

definition oneHeader :: "string \<Rightarrow> string \<Rightarrow> string \<Rightarrow> string option" where
  "oneHeader key v name = (if name = key then Some v else None)"

text \<open>HTTP behaviours for the scenarios: every HEAD (or GET) is answered with the given
  headers and body.\<close>

definition answering :: "(string \<Rightarrow> string option) \<Rightarrow> string \<Rightarrow> string \<Rightarrow> http_response settled" where
  "answering hdrs bytes url = Fulfilled \<lparr>headers = hdrs, body = bytes\<rparr>"

definition twoHeaders :: "string \<Rightarrow> string \<Rightarrow> string \<Rightarrow> string \<Rightarrow> string \<Rightarrow> string option" where
  "twoHeaders k1 v1 k2 v2 name = (if name = k1 then Some v1 else if name = k2 then Some v2 else None)"

section \<open>Theorems\<close>

subsection \<open>The retry wrapper\<close>

lemma wrap_retry:
  assumes "fn args s = (Fulfilled (Failure NO_PERMISSIONS_ERROR_CODE), s1)"
  shows "wrapInNoPermissionsRetry fn logout args s = fn args (logout s1)"
  using assms by (simp add: wrapInNoPermissionsRetry_def)

lemma wrap_pass:
  assumes "fn args s = (r1, s1)" and "r1 \<noteq> Fulfilled (Failure NO_PERMISSIONS_ERROR_CODE)"
  shows "wrapInNoPermissionsRetry fn logout args s = (r1, s1)"
proof (cases r1)
  case (Rejected e)
  with assms show ?thesis by (simp add: wrapInNoPermissionsRetry_def)
next
  case (Fulfilled result)
  with assms show ?thesis
    by (cases result) (auto simp: wrapInNoPermissionsRetry_def)
qed

lemma no_permissions_cases:
  "(case r1 of
      Fulfilled result \<Rightarrow>
        \<not> isConnectionFailure result \<and> \<not> success result \<and> error_code result = Some 105
    | Rejected e \<Rightarrow> False) \<longleftrightarrow> r1 = Fulfilled (Failure NO_PERMISSIONS_ERROR_CODE)"
proof (cases r1)
  case (Fulfilled result)
  then show ?thesis
    by (cases result) (auto simp: NO_PERMISSIONS_ERROR_CODE_def)
next
  case (Rejected e)
  then show ?thesis by simp
qed

text \<open>
  C2. Let the first invocation of the underlying call settle to \<open>r1\<close>, and let \<open>r2\<close> be
  what the call settles to when invoked again after a logout. If \<open>r1\<close> is a response
  that is not a connection failure, is unsuccessful and carries error code 105, the
  wrapper logs out exactly once and invokes the call exactly once more with the same
  arguments, and its result is \<open>r2\<close> whatever it is (there is no third invocation). In
  every other case (also a rejection) the wrapper's result is \<open>r1\<close>, after one
  invocation and no logout.
\<close>

theorem wrapInNoPermissionsRetry_retries_once:
  assumes first: "fn args w = (r1, w1)"
    and second: "fn args (logout w1) = (r2, w2)"
  shows "wrapInNoPermissionsRetry (recorded fn) (recordedLogout logout) args (w, []) =
     (if (case r1 of
            Fulfilled result \<Rightarrow>
              \<not> isConnectionFailure result \<and> \<not> success result \<and> error_code result = Some 105
          | Rejected e \<Rightarrow> False)
      then (r2, (w2, [Invoked args, LoggedOut, Invoked args]))
      else (r1, (w1, [Invoked args])))"
proof (cases "r1 = Fulfilled (Failure NO_PERMISSIONS_ERROR_CODE)")
  case True
  have "recorded fn args (w, []) = (Fulfilled (Failure NO_PERMISSIONS_ERROR_CODE), (w1, [Invoked args]))"
    using first True by (simp add: recorded_def)
  then have "wrapInNoPermissionsRetry (recorded fn) (recordedLogout logout) args (w, []) =
      recorded fn args (recordedLogout logout (w1, [Invoked args]))"
    by (rule wrap_retry)
  also have "\<dots> = (r2, (w2, [Invoked args, LoggedOut, Invoked args]))"
    using second by (simp add: recorded_def recordedLogout_def)
  finally show ?thesis
    using True no_permissions_cases [of r1] by simp
next
  case False
  have "recorded fn args (w, []) = (r1, (w1, [Invoked args]))"
    using first by (simp add: recorded_def)
  then have "wrapInNoPermissionsRetry (recorded fn) (recordedLogout logout) args (w, []) =
      (r1, (w1, [Invoked args]))"
    using False by (rule wrap_pass)
  then show ?thesis
    using False no_permissions_cases [of r1] by simp
qed

text \<open>
  The retry law on scripts: on \<open>[permissionFailure, success]\<close> the wrapped call returns
  the success after one logout; on \<open>[permissionFailure, permissionFailure]\<close> it returns
  the second failure and leaves the rest of the script untouched.
\<close>

theorem wrapInNoPermissionsRetry_retries_once_witness:
  "wrapInNoPermissionsRetry (recorded scripted) (recordedLogout id) ()
       ([Fulfilled (Failure 105), Fulfilled (Success ())], []) =
     (Fulfilled (Success ()), ([], [Invoked (), LoggedOut, Invoked ()]))
   \<and> wrapInNoPermissionsRetry (recorded scripted) (recordedLogout id) ()
       ([Fulfilled (Failure 105), Fulfilled (Failure 105), Fulfilled (Success ())], []) =
     (Fulfilled (Failure 105), ([Fulfilled (Success ())], [Invoked (), LoggedOut, Invoked ()]))
   \<and> wrapInNoPermissionsRetry (recorded scripted) (recordedLogout id) ()
       ([Fulfilled (Failure 404), Fulfilled (Success ())], []) =
     (Fulfilled (Failure 404), ([Fulfilled (Success ())], [Invoked ()]))"
proof -
  have a: "scripted () [Fulfilled (Failure 105), Fulfilled (Success ())] =
      (Fulfilled (Failure 105), [Fulfilled (Success ())])"
    and b: "scripted () (id [Fulfilled (Success ())]) = (Fulfilled (Success ()), [])"
    and c: "scripted () [Fulfilled (Failure 105), Fulfilled (Failure 105), Fulfilled (Success ())] =
      (Fulfilled (Failure 105), [Fulfilled (Failure 105), Fulfilled (Success ())])"
    and d: "scripted () (id [Fulfilled (Failure 105), Fulfilled (Success ())]) =
      (Fulfilled (Failure 105), [Fulfilled (Success ())])"
    and e: "scripted () [Fulfilled (Failure 404), Fulfilled (Success ())] =
      (Fulfilled (Failure 404), [Fulfilled (Success ())])"
    by (simp_all add: scripted_def)
  show ?thesis
    using wrapInNoPermissionsRetry_retries_once [where fn = scripted and logout = id, OF a b]
      wrapInNoPermissionsRetry_retries_once [where fn = scripted and logout = id, OF c d]
      wrapInNoPermissionsRetry_retries_once [where fn = scripted and logout = id, OF e b]
    by simp
qed

subsection \<open>The completion-notification decision\<close>

lemma notifyNewlyFinished_ids:
  assumes "set ids \<subseteq> task_id ` set ts"
  shows "\<exists>ns. notifyNewlyFinished enabled ts ids = Inr ns
           \<and> map for_task ns = (if enabled then ids else [])
           \<and> ns = (if enabled
                    then map (\<lambda>i. CompletionNotification i (title (hd (filter (\<lambda>t. task_id t = i) ts)))) ids
                    else [])"
  using assms
proof (induction ids)
  case Nil
  then show ?case by simp
next
  case (Cons i ids)
  then obtain ns where ns: "notifyNewlyFinished enabled ts ids = Inr ns"
      "map for_task ns = (if enabled then ids else [])"
      "ns = (if enabled
             then map (\<lambda>i. CompletionNotification i (title (hd (filter (\<lambda>t. task_id t = i) ts)))) ids
             else [])"
    by auto
  from Cons.prems have "i \<in> task_id ` set ts" by simp
  then have "filter (\<lambda>t. task_id t = i) ts \<noteq> []"
    by (auto simp: filter_empty_conv)
  then obtain task rest where f: "filter (\<lambda>t. task_id t = i) ts = task # rest"
    by (cases "filter (\<lambda>t. task_id t = i) ts") auto
  show ?case
    using ns f by auto
qed

lemma updatedFinishedTaskIds_subset:
  "set (filter P (updatedFinishedTaskIds st)) \<subseteq> task_id ` set (tasks st)"
  by (auto simp: updatedFinishedTaskIds_def)

lemma distinct_updatedFinishedTaskIds:
  "distinct (map task_id (tasks st)) \<Longrightarrow> distinct (updatedFinishedTaskIds st)"
  by (simp add: updatedFinishedTaskIds_def distinct_map_filter)

lemma onStoredStateChange_unconfirmed:
  "\<not> confirmedPoll S st \<Longrightarrow> onStoredStateChange S st fin = Inr (fin, [])"
  by (simp add: onStoredStateChange_def)

lemma onStoredStateChange_first:
  "confirmedPoll S st \<Longrightarrow>
     onStoredStateChange S st None = Inr (Some (updatedFinishedTaskIds st), [])"
  by (simp add: onStoredStateChange_def)

lemma onStoredStateChange_later:
  assumes "confirmedPoll S st"
  shows "onStoredStateChange S st (Some fin) =
     Inr (Some (fin @ filter (\<lambda>i. i \<notin> set fin) (updatedFinishedTaskIds st)),
          if enableCompletionNotifications st
          then map (\<lambda>i. CompletionNotification i (title (hd (filter (\<lambda>t. task_id t = i) (tasks st)))))
                 (filter (\<lambda>i. i \<notin> set fin) (updatedFinishedTaskIds st))
          else [])"
proof -
  obtain ns where "notifyNewlyFinished (enableCompletionNotifications st) (tasks st)
        (filter (\<lambda>i. i \<notin> set fin) (updatedFinishedTaskIds st)) = Inr ns"
    and "ns = (if enableCompletionNotifications st
          then map (\<lambda>i. CompletionNotification i (title (hd (filter (\<lambda>t. task_id t = i) (tasks st)))))
                 (filter (\<lambda>i. i \<notin> set fin) (updatedFinishedTaskIds st))
          else [])"
    using notifyNewlyFinished_ids [OF updatedFinishedTaskIds_subset] by blast
  then show ?thesis
    using assms by (simp add: onStoredStateChange_def)
qed

text \<open>One event: the callback never throws, the variable only grows, and what it fires
  is fresh (not tracked before), tracked afterwards and, when the task IDs of the
  snapshot are distinct, without repetition.\<close>

lemma onStoredStateChange_step:
  "\<exists>fin' ns. onStoredStateChange S st fin = Inr (fin', ns)
     \<and> tracked fin \<subseteq> tracked fin'
     \<and> for_task ` set ns \<subseteq> tracked fin' - tracked fin
     \<and> (distinct (map task_id (tasks st)) \<longrightarrow> distinct (map for_task ns))"
proof (cases "confirmedPoll S st")
  case False
  then show ?thesis by (simp add: onStoredStateChange_unconfirmed)
next
  case True
  show ?thesis
  proof (cases fin)
    case None
    with True show ?thesis by (simp add: onStoredStateChange_first tracked_def)
  next
    case (Some ids)
    show ?thesis
      unfolding Some onStoredStateChange_later [OF True]
      by (auto simp: tracked_def comp_def distinct_updatedFinishedTaskIds)
  qed
qed

lemma runHandler_invariant:
  assumes "\<forall>st \<in> set evs. distinct (map task_id (tasks st))"
  shows "tracked fin \<subseteq> tracked (fst (runHandler S fin evs))
     \<and> for_task ` set (snd (runHandler S fin evs)) \<inter> tracked fin = {}
     \<and> distinct (map for_task (snd (runHandler S fin evs)))"
  using assms
proof (induction evs arbitrary: fin)
  case Nil
  then show ?case by simp
next
  case (Cons ev evs)
  obtain fin' ns where step: "onStoredStateChange S ev fin = Inr (fin', ns)"
      "tracked fin \<subseteq> tracked fin'" "for_task ` set ns \<subseteq> tracked fin' - tracked fin"
      "distinct (map for_task ns)"
    using onStoredStateChange_step [of S ev fin] Cons.prems by auto
  obtain fin'' ms where rest: "runHandler S fin' evs = (fin'', ms)"
    by (cases "runHandler S fin' evs")
  have ih: "tracked fin' \<subseteq> tracked fin''" "for_task ` set ms \<inter> tracked fin' = {}"
      "distinct (map for_task ms)"
    using Cons.IH [of fin'] Cons.prems rest by auto
  have run: "runHandler S fin (ev # evs) = (fin'', ns @ ms)"
    using step(1) rest by simp
  have disj: "for_task ` set ns \<inter> for_task ` set ms = {}"
    using step(3) ih(2) by blast
  have a: "tracked fin \<subseteq> tracked fin''"
    using step(2) ih(1) by blast
  have b: "for_task ` set (ns @ ms) \<inter> tracked fin = {}"
    using step(2,3) ih(2) by auto
  have c: "distinct (map for_task (ns @ ms))"
    using step(4) ih(3) disj by simp
  show ?case
    unfolding run using a b c by simp
qed

lemma runHandler_append:
  "runHandler S fin (evs @ evs') =
     (case runHandler S fin evs of (fin', ns) \<Rightarrow>
        (case runHandler S fin' evs' of (fin'', ms) \<Rightarrow> (fin'', ns @ ms)))"
proof (induction evs arbitrary: fin)
  case Nil
  then show ?case by (simp split: prod.splits)
next
  case (Cons ev evs)
  obtain fin1 ns where step: "onStoredStateChange S ev fin = Inr (fin1, ns)"
    using onStoredStateChange_step [of S ev fin] by auto
  show ?case
    using step Cons.IH [of fin1] by (simp split: prod.splits)
qed

lemma runHandler_grows:
  "tracked fin \<subseteq> tracked (fst (runHandler S fin evs))"
proof (induction evs arbitrary: fin)
  case Nil
  then show ?case by simp
next
  case (Cons ev evs)
  obtain fin1 ns where step: "onStoredStateChange S ev fin = Inr (fin1, ns)"
      "tracked fin \<subseteq> tracked fin1"
    using onStoredStateChange_step [of S ev fin] by auto
  show ?case
    using step Cons.IH [of fin1] by (auto split: prod.splits)
qed

text \<open>
  C1. In a process lifetime whose snapshots each list a task ID once (the data model's
  unique IDs), no task ID is notified twice, however long it stays terminal. On the first
  confirmed poll the tracked list becomes the IDs of the finished and seeding tasks and
  nothing is fired. On a later confirmed poll the notifications fired are exactly, when
  completion notifications are enabled, one per ID that is terminal now and was not
  tracked, titled with the task's title, and none when they are disabled; those IDs
  join the tracked list.
\<close>

theorem completion_notification_at_most_once:
  assumes "\<forall>st \<in> set evs. distinct (map task_id (tasks st))"
  shows "distinct (map for_task (snd (runHandler S None evs)))
     \<and> (confirmedPoll S st \<longrightarrow>
          onStoredStateChange S st None = Inr (Some (updatedFinishedTaskIds st), []))
     \<and> (confirmedPoll S st \<longrightarrow>
          onStoredStateChange S st (Some fin) =
            Inr (Some (fin @ filter (\<lambda>i. i \<notin> set fin) (updatedFinishedTaskIds st)),
                 if enableCompletionNotifications st
                 then map (\<lambda>i. CompletionNotification i
                             (title (hd (filter (\<lambda>t. task_id t = i) (tasks st)))))
                        (filter (\<lambda>i. i \<notin> set fin) (updatedFinishedTaskIds st))
                 else []))"
proof -
  have "distinct (map for_task (snd (runHandler S None evs)))"
    using runHandler_invariant [OF assms, of None S] by simp
  then show ?thesis
    using onStoredStateChange_first [of S st] onStoredStateChange_later [of S st fin]
    by simp
qed

text \<open>
  Scenario A, with a third poll: task \<open>"1"\<close> is downloading at poll 1 and finished at
  polls 2 and 3. Exactly one notification fires in all (after poll 2).
\<close>

theorem completion_notification_at_most_once_witness:
  "distinct (map task_id (tasks (pollOf 1 ''downloading'')))
   \<and> distinct (map task_id (tasks (pollOf 2 ''finished'')))
   \<and> confirmedPoll 0 (pollOf 2 ''finished'')
   \<and> runHandler 0 None [pollOf 1 ''downloading''] = (Some [], [])
   \<and> runHandler 0 None [pollOf 1 ''downloading'', pollOf 2 ''finished'', pollOf 3 ''finished''] =
       (Some [''1''], [CompletionNotification ''1'' ''ubuntu.iso''])
   \<and> distinct (map for_task (snd (runHandler 0 None
         [pollOf 1 ''downloading'', pollOf 2 ''finished'', pollOf 3 ''finished''])))
   \<and> onStoredStateChange 0 (pollOf 2 ''finished'') None = Inr (Some [''1''], [])
   \<and> onStoredStateChange 0 (pollOf 2 ''finished'') (Some []) =
       Inr (Some [''1''], [CompletionNotification ''1'' ''ubuntu.iso''])"
proof -
  have d: "\<forall>st \<in> set [pollOf 1 ''downloading'', pollOf 2 ''finished'', pollOf 3 ''finished''].
      distinct (map task_id (tasks st))"
    by (simp add: pollOf_def)
  have c: "confirmedPoll 0 (pollOf 2 ''finished'')"
    by (simp add: confirmedPoll_def pollOf_def)
  have u: "updatedFinishedTaskIds (pollOf 2 ''finished'') = [''1'']"
    by (simp add: updatedFinishedTaskIds_def pollOf_def)
  have r: "runHandler 0 None [pollOf 1 ''downloading'', pollOf 2 ''finished'', pollOf 3 ''finished''] =
       (Some [''1''], [CompletionNotification ''1'' ''ubuntu.iso''])"
    by (simp add: onStoredStateChange_def confirmedPoll_def updatedFinishedTaskIds_def pollOf_def)
  have r1: "runHandler 0 None [pollOf 1 ''downloading''] = (Some [], [])"
    by (simp add: onStoredStateChange_def confirmedPoll_def updatedFinishedTaskIds_def pollOf_def)
  have t: "tasks (pollOf 2 ''finished'') =
      [\<lparr>task_id = ''1'', title = ''ubuntu.iso'', status = ''finished''\<rparr>]"
    "enableCompletionNotifications (pollOf 2 ''finished'')"
    by (simp_all add: pollOf_def)
  have d1: "distinct (map task_id (tasks (pollOf 1 ''downloading'')))"
    and d2: "distinct (map task_id (tasks (pollOf 2 ''finished'')))"
    by (simp_all add: pollOf_def)
  note main = completion_notification_at_most_once [OF d, of 0 "pollOf 2 ''finished''" "[]"]
  have once: "distinct (map for_task (snd (runHandler 0 None
         [pollOf 1 ''downloading'', pollOf 2 ''finished'', pollOf 3 ''finished''])))"
    using main by (rule conjunct1)
  have first: "onStoredStateChange 0 (pollOf 2 ''finished'') None = Inr (Some [''1''], [])"
    using main c by (simp add: u)
  have later: "onStoredStateChange 0 (pollOf 2 ''finished'') (Some []) =
       Inr (Some [''1''], [CompletionNotification ''1'' ''ubuntu.iso''])"
    using main c by (simp add: u t)
  show ?thesis
    by (intro conjI) (fact d1 d2 c r1 r once first later)+
qed

text \<open>
  C10. The tracked terminal-ID set only grows: an ID tracked after some events is tracked
  after any further events; a single run of the callback never throws and never removes
  an ID; and an event that fails the confirmed-poll preconditions leaves the variable
  exactly as it was and fires nothing.
\<close>

theorem tracked_set_monotone:
  "(i \<in> tracked (fst (runHandler S None evs)) \<longrightarrow>
      i \<in> tracked (fst (runHandler S None (evs @ evs'))))
   \<and> (\<exists>fin' ns. onStoredStateChange S st fin = Inr (fin', ns) \<and> tracked fin \<subseteq> tracked fin')
   \<and> (\<not> confirmedPoll S st \<longrightarrow> onStoredStateChange S st fin = Inr (fin, []))"
proof -
  obtain f1 n1 where e1: "runHandler S None evs = (f1, n1)"
    by (cases "runHandler S None evs")
  obtain f2 n2 where e2: "runHandler S f1 evs' = (f2, n2)"
    by (cases "runHandler S f1 evs'")
  have "runHandler S None (evs @ evs') = (f2, n1 @ n2)"
    using e1 e2 by (simp add: runHandler_append)
  then have "tracked (fst (runHandler S None evs)) \<subseteq> tracked (fst (runHandler S None (evs @ evs')))"
    using runHandler_grows [of f1 S evs'] e1 e2 by simp
  moreover have "\<exists>fin' ns. onStoredStateChange S st fin = Inr (fin', ns) \<and> tracked fin \<subseteq> tracked fin'"
    using onStoredStateChange_step [of S st fin] by blast
  ultimately show ?thesis
    using onStoredStateChange_unconfirmed [of S st fin] by blast
qed

text \<open>
  Task \<open>"1"\<close> is finished at the first confirmed poll; later it is reported as downloading
  again, and a failed poll follows: its ID stays tracked. A poll completed at the
  process start time itself is not confirmed.
\<close>

theorem tracked_set_monotone_witness:
  "''1'' \<in> tracked (fst (runHandler 0 None [pollOf 1 ''finished'']))
   \<and> ''1'' \<in> tracked (fst (runHandler 0 None ([pollOf 1 ''finished''] @
        [pollOf 2 ''downloading'',
         (pollOf 3 ''downloading'')\<lparr>taskFetchFailureReason := Some MissingConfig\<rparr>])))
   \<and> \<not> confirmedPoll 0 (pollOf 0 ''finished'')
   \<and> onStoredStateChange 0 (pollOf 0 ''finished'') (Some [''7'']) = Inr (Some [''7''], [])
   \<and> onStoredStateChange 0 (pollOf 2 ''downloading'') (Some [''1'']) = Inr (Some [''1''], [])"
proof -
  have a: "''1'' \<in> tracked (fst (runHandler 0 None [pollOf 1 ''finished'']))"
    by (simp add: onStoredStateChange_def confirmedPoll_def updatedFinishedTaskIds_def
        pollOf_def tracked_def)
  have b: "\<not> confirmedPoll 0 (pollOf 0 ''finished'')"
    by (simp add: confirmedPoll_def pollOf_def)
  have c: "onStoredStateChange 0 (pollOf 2 ''downloading'') (Some [''1'']) = Inr (Some [''1''], [])"
    by (simp add: onStoredStateChange_def confirmedPoll_def updatedFinishedTaskIds_def pollOf_def)
  note main = tracked_set_monotone [of "''1''" 0 "[pollOf 1 ''finished'']"
        "[pollOf 2 ''downloading'',
          (pollOf 3 ''downloading'')\<lparr>taskFetchFailureReason := Some MissingConfig\<rparr>]"
        "pollOf 0 ''finished''" "Some [''7'']"]
  have d: "''1'' \<in> tracked (fst (runHandler 0 None ([pollOf 1 ''finished''] @
        [pollOf 2 ''downloading'',
         (pollOf 3 ''downloading'')\<lparr>taskFetchFailureReason := Some MissingConfig\<rparr>])))"
    using main a by blast
  have e: "onStoredStateChange 0 (pollOf 0 ''finished'') (Some [''7'']) = Inr (Some [''7''], [])"
    using main b by blast
  show ?thesis
    by (intro conjI) (fact a b c d e)+
qed

subsection \<open>The poll coordinator\<close>

lemma doTaskPoll_split:
  "\<exists>sv calls. doTaskPoll env w =
     (taskPollOutcome env (server w), w\<lparr>server := sv, apiCalls := apiCalls w @ calls\<rparr>)
     \<and> set calls \<subseteq> insert AuthLogoutCall (range TaskListCall)"
proof -
  let ?req = "taskListOptions"
  obtain r1 s1 where first: "taskList env ?req (server w) = (r1, s1)"
    by (cases "taskList env ?req (server w)")
  obtain r2 s2 where second: "taskList env ?req (authLogout env s1) = (r2, s2)"
    by (cases "taskList env ?req (authLogout env s1)")
  show ?thesis
  proof (cases "r1 = Fulfilled (Failure NO_PERMISSIONS_ERROR_CODE)")
    case True
    have a: "apiTaskList env ?req w = (Fulfilled (Failure NO_PERMISSIONS_ERROR_CODE),
        w\<lparr>server := s1, apiCalls := apiCalls w @ [TaskListCall ?req]\<rparr>)"
      using first True by (simp add: apiTaskList_def)
    have b: "apiTaskList env ?req (apiLogout env (w\<lparr>server := s1, apiCalls := apiCalls w @ [TaskListCall ?req]\<rparr>)) =
        (r2, w\<lparr>server := s2, apiCalls := apiCalls w @ [TaskListCall ?req, AuthLogoutCall, TaskListCall ?req]\<rparr>)"
      using second by (simp add: apiTaskList_def apiLogout_def)
    have "doTaskPoll env w =
        (r2, w\<lparr>server := s2, apiCalls := apiCalls w @ [TaskListCall ?req, AuthLogoutCall, TaskListCall ?req]\<rparr>)"
      unfolding doTaskPoll_def
      using wrap_retry [of "\<lambda>u. apiTaskList env ?req" "()" w, OF a] b by simp
    moreover have "taskPollOutcome env (server w) = r2"
      unfolding taskPollOutcome_def
      using wrap_retry [of "\<lambda>u. taskList env ?req" "()" "server w" s1 "authLogout env"] first second True
      by simp
    ultimately have "doTaskPoll env w = (taskPollOutcome env (server w),
          w\<lparr>server := s2, apiCalls := apiCalls w @ [TaskListCall ?req, AuthLogoutCall, TaskListCall ?req]\<rparr>)
        \<and> set [TaskListCall ?req, AuthLogoutCall, TaskListCall ?req] \<subseteq> insert AuthLogoutCall (range TaskListCall)"
      by simp
    then show ?thesis by blast
  next
    case False
    have a: "apiTaskList env ?req w = (r1, w\<lparr>server := s1, apiCalls := apiCalls w @ [TaskListCall ?req]\<rparr>)"
      using first by (simp add: apiTaskList_def)
    have "doTaskPoll env w = (r1, w\<lparr>server := s1, apiCalls := apiCalls w @ [TaskListCall ?req]\<rparr>)"
      unfolding doTaskPoll_def using a False by (rule wrap_pass)
    moreover have "taskPollOutcome env (server w) = r1"
      unfolding taskPollOutcome_def
      using wrap_pass [of "\<lambda>u. taskList env ?req" "()" "server w" r1 s1 "authLogout env"] first False
      by simp
    ultimately have "doTaskPoll env w = (taskPollOutcome env (server w),
          w\<lparr>server := s1, apiCalls := apiCalls w @ [TaskListCall ?req]\<rparr>)
        \<and> set [TaskListCall ?req] \<subseteq> insert AuthLogoutCall (range TaskListCall)"
      by simp
    then show ?thesis by blast
  qed
qed

lemma setCachedTasksResponse_classified:
  "(case response of
      ConnectionFailure t \<Rightarrow>
        if t = ''missing-config'' then
          setCachedTasksResponse env
            (noKeys\<lparr>set_taskFetchFailureReason := Some (Some MissingConfig)\<rparr>)
        else
          setCachedTasksResponse env
            (noKeys\<lparr>set_taskFetchFailureReason :=
               Some (Some (FailureMessage (errorMessageFromConnectionFailure env t)))\<rparr>)
    | Success d \<Rightarrow>
        setCachedTasksResponse env
          (noKeys\<lparr>set_tasks := Some d, set_taskFetchFailureReason := Some None\<rparr>)
    | Failure c \<Rightarrow>
        setCachedTasksResponse env
          (noKeys\<lparr>set_taskFetchFailureReason :=
             Some (Some (FailureMessage (errorMessageFromCode env c ''DownloadStation.Task'')))\<rparr>)) W =
   storageSet env (resultWrite env (dateNow env (clockReads W)) response)
     (W\<lparr>clockReads := Suc (clockReads W)\<rparr>)"
  by (cases response)
    (simp_all add: setCachedTasksResponse_def readClock_def resultWrite_def spread_def noKeys_def)

text \<open>What one invocation of \<open>pollTasks\<close> does, in each of its four courses.\<close>

lemma pollTasks_run:
  fixes env :: "'w env" and w :: "'w world"
  defines "k \<equiv> clockReads w" and "n \<equiv> length (storageLog w)"
  defines "out \<equiv> taskPollOutcome env (server w)"
  shows "\<exists>sv calls. set calls \<subseteq> insert AuthLogoutCall (range TaskListCall) \<and>
     pollTasks env w = (Fulfilled (),
       (if storageSetRejects env n then
          w\<lparr>server := sv, apiCalls := apiCalls w @ calls,
            storageLog := storageLog w @ [(initWrite (dateNow env k), False)],
            clockReads := Suc k,
            errorLog := errorLog w @ [''storage.local.set rejected'']\<rparr>
        else
          (case out of
             Rejected e \<Rightarrow>
               w\<lparr>server := sv, apiCalls := apiCalls w @ calls,
                 storage := storageMerge (initWrite (dateNow env k)) (storage w),
                 storageLog := storageLog w @ [(initWrite (dateNow env k), True)],
                 clockReads := Suc k,
                 errorLog := errorLog w @ [e]\<rparr>
           | Fulfilled response \<Rightarrow>
               if storageSetRejects env (Suc n) then
                 w\<lparr>server := sv, apiCalls := apiCalls w @ calls,
                   storage := storageMerge (initWrite (dateNow env k)) (storage w),
                   storageLog := storageLog w @ [(initWrite (dateNow env k), True),
                      (resultWrite env (dateNow env (Suc k)) response, False)],
                   clockReads := Suc (Suc k),
                   errorLog := errorLog w @ [''storage.local.set rejected'']\<rparr>
               else
                 w\<lparr>server := sv, apiCalls := apiCalls w @ calls,
                   storage := storageMerge (resultWrite env (dateNow env (Suc k)) response)
                      (storageMerge (initWrite (dateNow env k)) (storage w)),
                   storageLog := storageLog w @ [(initWrite (dateNow env k), True),
                      (resultWrite env (dateNow env (Suc k)) response, True)],
                   clockReads := Suc (Suc k)\<rparr>)))"
proof -
  define W0 where "W0 = w\<lparr>clockReads := Suc k\<rparr>"
  define ini where "ini = noKeys\<lparr>set_tasksLastInitiatedFetchTimestamp := Some (Some (dateNow env k))\<rparr>"
  have ini: "ini = initWrite (dateNow env k)"
    by (simp add: ini_def initWrite_def noKeys_def)
  have rc: "readClock env w = (dateNow env k, W0)"
    by (simp add: readClock_def W0_def k_def)
  obtain a W1 where ss: "storageSet env ini W0 = (a, W1)"
    by (cases "storageSet env ini W0")
  obtain sv calls where calls: "set calls \<subseteq> insert AuthLogoutCall (range TaskListCall)"
    and dp: "doTaskPoll env W1 = (taskPollOutcome env (server W1), W1\<lparr>server := sv, apiCalls := apiCalls W1 @ calls\<rparr>)"
    using doTaskPoll_split [of env W1] by blast
  have W1: "W1 = (if storageSetRejects env n then W0\<lparr>storageLog := storageLog w @ [(ini, False)]\<rparr>
                  else W0\<lparr>storage := storageMerge ini (storage w), storageLog := storageLog w @ [(ini, True)]\<rparr>)"
    and a: "a = (if storageSetRejects env n then Rejected ''storage.local.set rejected'' else Fulfilled ())"
    using ss by (auto simp: storageSet_def W0_def n_def split: if_splits)
  have sv1: "server W1 = server w" "apiCalls W1 = apiCalls w"
    by (simp_all add: W1 W0_def)
  have unfold: "pollTasks env w =
      catchDo
        (thenDo (promiseAll2 (storageSet env ini) (doTaskPoll env) W0)
           (\<lambda>(u, response) W. storageSet env (resultWrite env (dateNow env (clockReads W)) response)
               (W\<lparr>clockReads := Suc (clockReads W)\<rparr>)))
        (\<lambda>error w'. (Fulfilled (), w'\<lparr>errorLog := errorLog w' @ [error]\<rparr>))"
    by (simp add: pollTasks_def rc ini_def setCachedTasksResponse_classified [abs_def] split_def)
  have pa: "promiseAll2 (storageSet env ini) (doTaskPoll env) W0 =
      ((case a of Rejected e \<Rightarrow> Rejected e
        | Fulfilled x \<Rightarrow> (case out of Rejected e \<Rightarrow> Rejected e | Fulfilled y \<Rightarrow> Fulfilled (x, y))),
       W1\<lparr>server := sv, apiCalls := apiCalls w @ calls\<rparr>)"
    by (simp add: promiseAll2_def ss dp sv1 out_def split: settled.splits)
  show ?thesis
  proof (intro exI [of _ sv] exI [of _ calls] conjI calls)
    show "pollTasks env w = (Fulfilled (),
       (if storageSetRejects env n then
          w\<lparr>server := sv, apiCalls := apiCalls w @ calls,
            storageLog := storageLog w @ [(initWrite (dateNow env k), False)],
            clockReads := Suc k,
            errorLog := errorLog w @ [''storage.local.set rejected'']\<rparr>
        else
          (case out of
             Rejected e \<Rightarrow>
               w\<lparr>server := sv, apiCalls := apiCalls w @ calls,
                 storage := storageMerge (initWrite (dateNow env k)) (storage w),
                 storageLog := storageLog w @ [(initWrite (dateNow env k), True)],
                 clockReads := Suc k,
                 errorLog := errorLog w @ [e]\<rparr>
           | Fulfilled response \<Rightarrow>
               if storageSetRejects env (Suc n) then
                 w\<lparr>server := sv, apiCalls := apiCalls w @ calls,
                   storage := storageMerge (initWrite (dateNow env k)) (storage w),
                   storageLog := storageLog w @ [(initWrite (dateNow env k), True),
                      (resultWrite env (dateNow env (Suc k)) response, False)],
                   clockReads := Suc (Suc k),
                   errorLog := errorLog w @ [''storage.local.set rejected'']\<rparr>
               else
                 w\<lparr>server := sv, apiCalls := apiCalls w @ calls,
                   storage := storageMerge (resultWrite env (dateNow env (Suc k)) response)
                      (storageMerge (initWrite (dateNow env k)) (storage w)),
                   storageLog := storageLog w @ [(initWrite (dateNow env k), True),
                      (resultWrite env (dateNow env (Suc k)) response, True)],
                   clockReads := Suc (Suc k)\<rparr>)))"
    proof (cases "storageSetRejects env n")
      case True
      then show ?thesis
        unfolding unfold pa
        by (simp add: a W1 W0_def ini thenDo_def catchDo_def)
    next
      case False
      show ?thesis
      proof (cases out)
        case (Rejected e)
        with False show ?thesis
          unfolding unfold pa
          by (simp add: a W1 W0_def ini thenDo_def catchDo_def)
      next
        case (Fulfilled response)
        with False show ?thesis
          unfolding unfold pa
          by (simp add: a W1 W0_def ini thenDo_def catchDo_def storageSet_def n_def)
      qed
    qed
  qed
qed

text \<open>
  C3. Let the first write (the initiation time) be committed and let the wrapped
  task-list call settle to a response. Then the poll issues exactly one more
  \<open>storage.local.set\<close>, and its payload is, by the response: for a connection failure of
  type \<open>missing-config\<close>, the failure reason \<open>"missing-config"\<close>; for any other connection
  failure, the reason \<open>{failureMessage}\<close> with the message derived from the failure; for a
  success, the response's task list and the reason \<open>null\<close>; for an error, the reason
  \<open>{failureMessage}\<close> with the message derived from the error code. In each case the same
  payload carries \<open>tasksLastCompletedFetchTimestamp\<close>, and its value is the clock reading
  taken after the response settled (reading \<open>k + 1\<close>), not the one taken at the start of
  the poll (reading \<open>k\<close>, which the first write carries). When that write is committed it
  is merged into the cache as a whole.
\<close>

theorem pollTasks_classifies_response:
  assumes "\<not> storageSetRejects env (length (storageLog w))"
    and "taskPollOutcome env (server w) = Fulfilled response"
  shows "storageLog (snd (pollTasks env w)) =
      storageLog w @
        [(\<lparr>set_tasks = None, set_taskFetchFailureReason = None,
           set_tasksLastInitiatedFetchTimestamp = Some (Some (dateNow env (clockReads w))),
           set_tasksLastCompletedFetchTimestamp = None\<rparr>, True),
         (case response of
            ConnectionFailure t \<Rightarrow>
              if t = ''missing-config'' then
                \<lparr>set_tasks = None,
                 set_taskFetchFailureReason = Some (Some MissingConfig),
                 set_tasksLastInitiatedFetchTimestamp = None,
                 set_tasksLastCompletedFetchTimestamp = Some (Some (dateNow env (Suc (clockReads w))))\<rparr>
              else
                \<lparr>set_tasks = None,
                 set_taskFetchFailureReason =
                   Some (Some (FailureMessage (errorMessageFromConnectionFailure env t))),
                 set_tasksLastInitiatedFetchTimestamp = None,
                 set_tasksLastCompletedFetchTimestamp = Some (Some (dateNow env (Suc (clockReads w))))\<rparr>
          | Success d \<Rightarrow>
              \<lparr>set_tasks = Some d,
               set_taskFetchFailureReason = Some None,
               set_tasksLastInitiatedFetchTimestamp = None,
               set_tasksLastCompletedFetchTimestamp = Some (Some (dateNow env (Suc (clockReads w))))\<rparr>
          | Failure c \<Rightarrow>
              \<lparr>set_tasks = None,
               set_taskFetchFailureReason =
                 Some (Some (FailureMessage (errorMessageFromCode env c ''DownloadStation.Task''))),
               set_tasksLastInitiatedFetchTimestamp = None,
               set_tasksLastCompletedFetchTimestamp = Some (Some (dateNow env (Suc (clockReads w))))\<rparr>,
          \<not> storageSetRejects env (Suc (length (storageLog w))))]
    \<and> (\<not> storageSetRejects env (Suc (length (storageLog w))) \<longrightarrow>
         storage (snd (pollTasks env w)) =
           \<lparr>tasks = (case response of Success d \<Rightarrow> d | ConnectionFailure t \<Rightarrow> tasks (storage w)
                       | Failure c \<Rightarrow> tasks (storage w)),
            taskFetchFailureReason =
              (case response of
                 ConnectionFailure t \<Rightarrow>
                   Some (if t = ''missing-config'' then MissingConfig
                         else FailureMessage (errorMessageFromConnectionFailure env t))
               | Success d \<Rightarrow> None
               | Failure c \<Rightarrow> Some (FailureMessage (errorMessageFromCode env c ''DownloadStation.Task''))),
            tasksLastInitiatedFetchTimestamp = Some (dateNow env (clockReads w)),
            tasksLastCompletedFetchTimestamp = Some (dateNow env (Suc (clockReads w)))\<rparr>)"
proof -
  obtain sv calls where run: "pollTasks env w = (Fulfilled (),
      (if storageSetRejects env (Suc (length (storageLog w))) then
         w\<lparr>server := sv, apiCalls := apiCalls w @ calls,
           storage := storageMerge (initWrite (dateNow env (clockReads w))) (storage w),
           storageLog := storageLog w @ [(initWrite (dateNow env (clockReads w)), True),
              (resultWrite env (dateNow env (Suc (clockReads w))) response, False)],
           clockReads := Suc (Suc (clockReads w)),
           errorLog := errorLog w @ [''storage.local.set rejected'']\<rparr>
       else
         w\<lparr>server := sv, apiCalls := apiCalls w @ calls,
           storage := storageMerge (resultWrite env (dateNow env (Suc (clockReads w))) response)
              (storageMerge (initWrite (dateNow env (clockReads w))) (storage w)),
           storageLog := storageLog w @ [(initWrite (dateNow env (clockReads w)), True),
              (resultWrite env (dateNow env (Suc (clockReads w))) response, True)],
           clockReads := Suc (Suc (clockReads w))\<rparr>))"
    using pollTasks_run [of env w] assms by auto
  show ?thesis
    unfolding run
    by (cases response) (simp_all add: initWrite_def resultWrite_def storageMerge_def)
qed

text \<open>
  C5. The promise \<open>pollTasks\<close> returns is always fulfilled, whatever the storage writes
  and the task-list call do (each of them may reject; an exception in a callback is a
  rejection). An unexpected error is caught and logged exactly when the first write
  rejects, the wrapped task-list call rejects or the result write rejects; and then the
  cache's \<open>tasks\<close>, \<open>taskFetchFailureReason\<close> and \<open>tasksLastCompletedFetchTimestamp\<close> are as
  they were before the poll, and no write this poll committed carries any of these keys.
\<close>

theorem pollTasks_never_rejects:
  "fst (pollTasks env w) = Fulfilled ()
   \<and> (errorLog (snd (pollTasks env w)) \<noteq> errorLog w \<longleftrightarrow>
        (storageSetRejects env (length (storageLog w))
         \<or> (case taskPollOutcome env (server w) of Rejected e \<Rightarrow> True | Fulfilled r \<Rightarrow> False)
         \<or> storageSetRejects env (Suc (length (storageLog w)))))
   \<and> (errorLog (snd (pollTasks env w)) \<noteq> errorLog w \<longrightarrow>
        tasks (storage (snd (pollTasks env w))) = tasks (storage w)
        \<and> taskFetchFailureReason (storage (snd (pollTasks env w))) = taskFetchFailureReason (storage w)
        \<and> tasksLastCompletedFetchTimestamp (storage (snd (pollTasks env w))) =
            tasksLastCompletedFetchTimestamp (storage w)
        \<and> (\<forall>p. (p, True) \<in> set (drop (length (storageLog w)) (storageLog (snd (pollTasks env w)))) \<longrightarrow>
              set_tasks p = None \<and> set_taskFetchFailureReason p = None
              \<and> set_tasksLastCompletedFetchTimestamp p = None))"
proof -
  obtain sv calls where run: "pollTasks env w = (Fulfilled (),
       (if storageSetRejects env (length (storageLog w)) then
          w\<lparr>server := sv, apiCalls := apiCalls w @ calls,
            storageLog := storageLog w @ [(initWrite (dateNow env (clockReads w)), False)],
            clockReads := Suc (clockReads w),
            errorLog := errorLog w @ [''storage.local.set rejected'']\<rparr>
        else
          (case taskPollOutcome env (server w) of
             Rejected e \<Rightarrow>
               w\<lparr>server := sv, apiCalls := apiCalls w @ calls,
                 storage := storageMerge (initWrite (dateNow env (clockReads w))) (storage w),
                 storageLog := storageLog w @ [(initWrite (dateNow env (clockReads w)), True)],
                 clockReads := Suc (clockReads w),
                 errorLog := errorLog w @ [e]\<rparr>
           | Fulfilled response \<Rightarrow>
               if storageSetRejects env (Suc (length (storageLog w))) then
                 w\<lparr>server := sv, apiCalls := apiCalls w @ calls,
                   storage := storageMerge (initWrite (dateNow env (clockReads w))) (storage w),
                   storageLog := storageLog w @ [(initWrite (dateNow env (clockReads w)), True),
                      (resultWrite env (dateNow env (Suc (clockReads w))) response, False)],
                   clockReads := Suc (Suc (clockReads w)),
                   errorLog := errorLog w @ [''storage.local.set rejected'']\<rparr>
               else
                 w\<lparr>server := sv, apiCalls := apiCalls w @ calls,
                   storage := storageMerge (resultWrite env (dateNow env (Suc (clockReads w))) response)
                      (storageMerge (initWrite (dateNow env (clockReads w))) (storage w)),
                   storageLog := storageLog w @ [(initWrite (dateNow env (clockReads w)), True),
                      (resultWrite env (dateNow env (Suc (clockReads w))) response, True)],
                   clockReads := Suc (Suc (clockReads w))\<rparr>)))"
    using pollTasks_run [of env w] by blast
  show ?thesis
  proof (cases "storageSetRejects env (length (storageLog w))")
    case True
    then show ?thesis
      unfolding run by (simp add: initWrite_def)
  next
    case False
    show ?thesis
    proof (cases "taskPollOutcome env (server w)")
      case (Rejected e)
      with False show ?thesis
        unfolding run by (simp add: initWrite_def storageMerge_def)
    next
      case (Fulfilled response)
      with False show ?thesis
        unfolding run by (simp add: initWrite_def storageMerge_def)
    qed
  qed
qed

text \<open>
  C6. With a clock that never goes back, a poll that completes (both of its writes are
  committed, the task-list call settled to a response) writes an initiation time and a
  completion time, in that order, and leaves them in the cache with the completion time
  not before the initiation time.
\<close>

theorem pollTasks_completed_not_before_initiated:
  assumes "mono (dateNow env)"
    and "\<not> storageSetRejects env (length (storageLog w))"
    and "\<not> storageSetRejects env (Suc (length (storageLog w)))"
    and "taskPollOutcome env (server w) = Fulfilled response"
  shows "\<exists>p q ti tc. storageLog (snd (pollTasks env w)) = storageLog w @ [(p, True), (q, True)]
     \<and> set_tasksLastInitiatedFetchTimestamp p = Some (Some ti)
     \<and> set_tasksLastCompletedFetchTimestamp p = None
     \<and> set_tasksLastInitiatedFetchTimestamp q = None
     \<and> set_tasksLastCompletedFetchTimestamp q = Some (Some tc)
     \<and> tasksLastInitiatedFetchTimestamp (storage (snd (pollTasks env w))) = Some ti
     \<and> tasksLastCompletedFetchTimestamp (storage (snd (pollTasks env w))) = Some tc
     \<and> ti \<le> tc"
proof -
  let ?ti = "dateNow env (clockReads w)" and ?tc = "dateNow env (Suc (clockReads w))"
  obtain sv calls where run: "pollTasks env w = (Fulfilled (),
         w\<lparr>server := sv, apiCalls := apiCalls w @ calls,
           storage := storageMerge (resultWrite env ?tc response) (storageMerge (initWrite ?ti) (storage w)),
           storageLog := storageLog w @ [(initWrite ?ti, True), (resultWrite env ?tc response, True)],
           clockReads := Suc (Suc (clockReads w))\<rparr>)"
    using pollTasks_run [of env w] assms(2-4) by auto
  have le: "?ti \<le> ?tc"
    using assms(1) by (simp add: mono_def)
  have "storageLog (snd (pollTasks env w)) =
        storageLog w @ [(initWrite ?ti, True), (resultWrite env ?tc response, True)]
     \<and> set_tasksLastInitiatedFetchTimestamp (initWrite ?ti) = Some (Some ?ti)
     \<and> set_tasksLastCompletedFetchTimestamp (initWrite ?ti) = None
     \<and> set_tasksLastInitiatedFetchTimestamp (resultWrite env ?tc response) = None
     \<and> set_tasksLastCompletedFetchTimestamp (resultWrite env ?tc response) = Some (Some ?tc)
     \<and> tasksLastInitiatedFetchTimestamp (storage (snd (pollTasks env w))) = Some ?ti
     \<and> tasksLastCompletedFetchTimestamp (storage (snd (pollTasks env w))) = Some ?tc
     \<and> ?ti \<le> ?tc"
    unfolding run using le
    by (cases response) (simp_all add: initWrite_def resultWrite_def storageMerge_def)
  then show ?thesis by blast
qed

lemma demo_never_rejects: "\<not> storageSetRejects (demoEnv h g (\<lambda>k. False)) n"
  by (simp add: demoEnv_def)

lemma demo_taskPollOutcome_retry:
  "taskPollOutcome (demoEnv h g r) (server (demoWorld (Fulfilled (Failure 105) # x # xs, cs))) = x"
  by (simp add: taskPollOutcome_def wrapInNoPermissionsRetry_def demoEnv_def demoWorld_def
      NO_PERMISSIONS_ERROR_CODE_def)

lemma demo_taskPollOutcome_rejected:
  "taskPollOutcome (demoEnv h g r) (server (demoWorld (Rejected e # xs, cs))) = Rejected e"
  by (simp add: taskPollOutcome_def wrapInNoPermissionsRetry_def demoEnv_def demoWorld_def)

lemma demo_fields:
  "dateNow (demoEnv h g r) k = 1000 + 10 * int k"
  "storageSetRejects (demoEnv h g r) = r"
  "errorMessageFromCode (demoEnv h g r) c ns = ''error code in '' @ ns"
  "errorMessageFromConnectionFailure (demoEnv h g r) t = ''connection failure: '' @ t"
  "storageLog (demoWorld sv) = []"
  "clockReads (demoWorld sv) = 0"
  "errorLog (demoWorld sv) = []"
  "storage (demoWorld sv) = \<lparr>tasks = [], taskFetchFailureReason = None,
      tasksLastInitiatedFetchTimestamp = None, tasksLastCompletedFetchTimestamp = None\<rparr>"
  by (simp_all add: demoEnv_def demoWorld_def)

text \<open>
  A poll from the empty cache whose list call first fails with code 105 and, retried,
  succeeds with one task: the two writes, and the cache afterwards.
\<close>

theorem pollTasks_classifies_response_witness:
  "\<not> storageSetRejects (demoEnv noHttp noHttp (\<lambda>k. False))
       (length (storageLog (demoWorld ([Fulfilled (Failure 105), Fulfilled (Success [demoTask])], []))))
   \<and> taskPollOutcome (demoEnv noHttp noHttp (\<lambda>k. False))
       (server (demoWorld ([Fulfilled (Failure 105), Fulfilled (Success [demoTask])], []))) =
      Fulfilled (Success [demoTask])
   \<and> storageLog (snd (pollTasks (demoEnv noHttp noHttp (\<lambda>k. False))
       (demoWorld ([Fulfilled (Failure 105), Fulfilled (Success [demoTask])], [])))) =
      [(\<lparr>set_tasks = None, set_taskFetchFailureReason = None,
         set_tasksLastInitiatedFetchTimestamp = Some (Some 1000),
         set_tasksLastCompletedFetchTimestamp = None\<rparr>, True),
       (\<lparr>set_tasks = Some [demoTask], set_taskFetchFailureReason = Some None,
         set_tasksLastInitiatedFetchTimestamp = None,
         set_tasksLastCompletedFetchTimestamp = Some (Some 1010)\<rparr>, True)]
   \<and> storage (snd (pollTasks (demoEnv noHttp noHttp (\<lambda>k. False))
       (demoWorld ([Fulfilled (Failure 105), Fulfilled (Success [demoTask])], [])))) =
      \<lparr>tasks = [demoTask], taskFetchFailureReason = None,
       tasksLastInitiatedFetchTimestamp = Some 1000,
       tasksLastCompletedFetchTimestamp = Some 1010\<rparr>"
proof -
  let ?env = "demoEnv noHttp noHttp (\<lambda>k. False)"
  let ?w = "demoWorld ([Fulfilled (Failure 105), Fulfilled (Success [demoTask])], [])"
  have a: "\<not> storageSetRejects ?env (length (storageLog ?w))"
    by (rule demo_never_rejects)
  have b: "taskPollOutcome ?env (server ?w) = Fulfilled (Success [demoTask])"
    by (rule demo_taskPollOutcome_retry)
  note main = pollTasks_classifies_response [OF a b]
  have c: "storageLog (snd (pollTasks ?env ?w)) =
      [(\<lparr>set_tasks = None, set_taskFetchFailureReason = None,
         set_tasksLastInitiatedFetchTimestamp = Some (Some 1000),
         set_tasksLastCompletedFetchTimestamp = None\<rparr>, True),
       (\<lparr>set_tasks = Some [demoTask], set_taskFetchFailureReason = Some None,
         set_tasksLastInitiatedFetchTimestamp = None,
         set_tasksLastCompletedFetchTimestamp = Some (Some 1010)\<rparr>, True)]"
    using main by (simp add: demo_fields)
  have d: "storage (snd (pollTasks ?env ?w)) =
      \<lparr>tasks = [demoTask], taskFetchFailureReason = None,
       tasksLastInitiatedFetchTimestamp = Some 1000,
       tasksLastCompletedFetchTimestamp = Some 1010\<rparr>"
    using main by (simp add: demo_fields)
  show ?thesis
    by (intro conjI) (fact a b c d)+
qed

text \<open>
  A poll whose list call rejects, on a cache that holds a task: the promise is
  fulfilled, the error is logged and the three result fields are untouched.
\<close>

theorem pollTasks_never_rejects_witness:
  "fst (pollTasks (demoEnv noHttp noHttp (\<lambda>k. False))
         ((demoWorld ([Rejected ''timeout''], []))\<lparr>storage :=
            \<lparr>tasks = [demoTask], taskFetchFailureReason = None,
             tasksLastInitiatedFetchTimestamp = Some 5, tasksLastCompletedFetchTimestamp = Some 7\<rparr>\<rparr>)) =
     Fulfilled ()
   \<and> errorLog (snd (pollTasks (demoEnv noHttp noHttp (\<lambda>k. False))
         ((demoWorld ([Rejected ''timeout''], []))\<lparr>storage :=
            \<lparr>tasks = [demoTask], taskFetchFailureReason = None,
             tasksLastInitiatedFetchTimestamp = Some 5, tasksLastCompletedFetchTimestamp = Some 7\<rparr>\<rparr>))) \<noteq> []
   \<and> tasks (storage (snd (pollTasks (demoEnv noHttp noHttp (\<lambda>k. False))
         ((demoWorld ([Rejected ''timeout''], []))\<lparr>storage :=
            \<lparr>tasks = [demoTask], taskFetchFailureReason = None,
             tasksLastInitiatedFetchTimestamp = Some 5, tasksLastCompletedFetchTimestamp = Some 7\<rparr>\<rparr>)))) =
      [demoTask]
   \<and> taskFetchFailureReason (storage (snd (pollTasks (demoEnv noHttp noHttp (\<lambda>k. False))
         ((demoWorld ([Rejected ''timeout''], []))\<lparr>storage :=
            \<lparr>tasks = [demoTask], taskFetchFailureReason = None,
             tasksLastInitiatedFetchTimestamp = Some 5, tasksLastCompletedFetchTimestamp = Some 7\<rparr>\<rparr>)))) =
      None
   \<and> tasksLastCompletedFetchTimestamp (storage (snd (pollTasks (demoEnv noHttp noHttp (\<lambda>k. False))
         ((demoWorld ([Rejected ''timeout''], []))\<lparr>storage :=
            \<lparr>tasks = [demoTask], taskFetchFailureReason = None,
             tasksLastInitiatedFetchTimestamp = Some 5, tasksLastCompletedFetchTimestamp = Some 7\<rparr>\<rparr>)))) =
      Some 7"
proof -
  let ?env = "demoEnv noHttp noHttp (\<lambda>k. False)"
  let ?w = "(demoWorld ([Rejected ''timeout''], []))\<lparr>storage :=
            \<lparr>tasks = [demoTask], taskFetchFailureReason = None,
             tasksLastInitiatedFetchTimestamp = Some 5, tasksLastCompletedFetchTimestamp = Some 7\<rparr>\<rparr>"
  have sv: "server ?w = server (demoWorld ([Rejected ''timeout''], []))"
    by simp
  have out: "taskPollOutcome ?env (server ?w) = Rejected ''timeout''"
    unfolding sv by (rule demo_taskPollOutcome_rejected)
  have el: "errorLog ?w = []"
    by (simp add: demoWorld_def)
  note main = pollTasks_never_rejects [of ?env ?w]
  have a: "fst (pollTasks ?env ?w) = Fulfilled ()"
    using main by blast
  have b: "errorLog (snd (pollTasks ?env ?w)) \<noteq> []"
    using main out el by simp
  then have b': "errorLog (snd (pollTasks ?env ?w)) \<noteq> errorLog ?w"
    using el by simp
  have c: "tasks (storage (snd (pollTasks ?env ?w))) = [demoTask]"
    using main b' by simp
  have d: "taskFetchFailureReason (storage (snd (pollTasks ?env ?w))) = None"
    using main b' by simp
  have e: "tasksLastCompletedFetchTimestamp (storage (snd (pollTasks ?env ?w))) = Some 7"
    using main b' by simp
  show ?thesis
    by (intro conjI) (fact a b c d e)+
qed

text \<open>The same successful poll as above, with its two times: 1000 and 1010.\<close>

theorem pollTasks_completed_not_before_initiated_witness:
  "mono (dateNow (demoEnv noHttp noHttp (\<lambda>k. False)))
   \<and> taskPollOutcome (demoEnv noHttp noHttp (\<lambda>k. False))
       (server (demoWorld ([Fulfilled (Failure 105), Fulfilled (Success [demoTask])], []))) =
      Fulfilled (Success [demoTask])
   \<and> (\<exists>p q ti tc.
        storageLog (snd (pollTasks (demoEnv noHttp noHttp (\<lambda>k. False))
          (demoWorld ([Fulfilled (Failure 105), Fulfilled (Success [demoTask])], [])))) =
          storageLog (demoWorld ([Fulfilled (Failure 105), Fulfilled (Success [demoTask])], []))
            @ [(p, True), (q, True)]
        \<and> set_tasksLastInitiatedFetchTimestamp p = Some (Some ti)
        \<and> set_tasksLastCompletedFetchTimestamp p = None
        \<and> set_tasksLastInitiatedFetchTimestamp q = None
        \<and> set_tasksLastCompletedFetchTimestamp q = Some (Some tc)
        \<and> tasksLastInitiatedFetchTimestamp (storage (snd (pollTasks (demoEnv noHttp noHttp (\<lambda>k. False))
            (demoWorld ([Fulfilled (Failure 105), Fulfilled (Success [demoTask])], []))))) = Some ti
        \<and> tasksLastCompletedFetchTimestamp (storage (snd (pollTasks (demoEnv noHttp noHttp (\<lambda>k. False))
            (demoWorld ([Fulfilled (Failure 105), Fulfilled (Success [demoTask])], []))))) = Some tc
        \<and> ti \<le> tc)"
proof -
  let ?env = "demoEnv noHttp noHttp (\<lambda>k. False)"
  let ?w = "demoWorld ([Fulfilled (Failure 105), Fulfilled (Success [demoTask])], [])"
  have m: "mono (dateNow ?env)"
    by (simp add: demoEnv_def mono_def)
  have a: "\<not> storageSetRejects ?env (length (storageLog ?w))"
    and a': "\<not> storageSetRejects ?env (Suc (length (storageLog ?w)))"
    by (rule demo_never_rejects)+
  have b: "taskPollOutcome ?env (server ?w) = Fulfilled (Success [demoTask])"
    by (rule demo_taskPollOutcome_retry)
  note main = pollTasks_completed_not_before_initiated [OF m a a' b]
  show ?thesis
    by (intro conjI) (fact m b main)+
qed

subsection \<open>The file name of a fetched metadata file\<close>

lemma startsWith_append_same: "startsWith (p @ s) p"
  by (induction p) simp_all

lemma startsWith_append_long:
  "length p \<le> length xs \<Longrightarrow> startsWith (xs @ ys) p = startsWith xs p"
proof (induction xs p rule: startsWith.induct)
  case (1 s)
  then show ?case by (cases "s @ ys") simp_all
next
  case (2 p ps)
  then show ?case by simp
next
  case (3 c cs p ps)
  then show ?case by simp
qed

lemma endsWith_append_same: "endsWith (n @ e) e"
  by (simp add: endsWith_def startsWith_append_same)

text \<open>The search finds the first occurrence of the key, and when the text after it
  matches, that is the match.\<close>

lemma matchAfter_first:
  assumes "\<not> containsText (pre @ kinit) (kinit @ [klast])"
    and "matchFilenameValue rest = Some v"
  shows "matchAfter (kinit @ [klast]) (pre @ (kinit @ [klast]) @ rest) = Some v"
  using assms(1)
proof (induction pre)
  case Nil
  have "startsWith ((kinit @ [klast]) @ rest) (kinit @ [klast])"
    by (rule startsWith_append_same)
  moreover obtain c cs where "(kinit @ [klast]) @ rest = c # cs"
    by (cases "(kinit @ [klast]) @ rest") auto
  moreover have "drop (length (kinit @ [klast])) ((kinit @ [klast]) @ rest) = rest"
    by simp
  ultimately show ?case
    using assms(2) by (simp del: append_assoc)
next
  case (Cons c pre)
  have no: "\<not> startsWith ((c # pre) @ kinit) (kinit @ [klast])"
    and rest: "\<not> containsText (pre @ kinit) (kinit @ [klast])"
    using Cons.prems by simp_all
  have "startsWith (((c # pre) @ kinit) @ ([klast] @ rest)) (kinit @ [klast]) =
      startsWith ((c # pre) @ kinit) (kinit @ [klast])"
    by (rule startsWith_append_long) simp
  then have "\<not> startsWith (c # (pre @ (kinit @ [klast]) @ rest)) (kinit @ [klast])"
    using no by simp
  then have "matchAfter (kinit @ [klast]) ((c # pre) @ (kinit @ [klast]) @ rest) =
      matchAfter (kinit @ [klast]) (pre @ (kinit @ [klast]) @ rest)"
    by simp
  then show ?case
    using Cons.IH [OF rest] by simp
qed

lemma filenamePropertyExec_first:
  assumes "\<not> containsText (pre @ ''filename'') ''filename=''"
    and "matchFilenameValue rest = Some v"
  shows "filenamePropertyExec (pre @ ''filename='' @ rest) = Some v"
  using matchAfter_first [of pre "''filename''" "CHR ''=''" rest v] assms
  by (simp add: filenamePropertyExec_def)

lemma takeWhile_upto: "q \<notin> set v \<Longrightarrow> takeWhile (\<lambda>x. x \<noteq> q) (v @ q # post) = v"
  by (induction v) auto

lemma dropWhile_upto: "q \<notin> set v \<Longrightarrow> dropWhile (\<lambda>x. x \<noteq> q) (v @ q # post) = q # post"
  by (induction v) auto

lemma matchFilenameValue_quoted:
  assumes "v \<noteq> []" and "CHR 0x22 \<notin> set v"
  shows "matchFilenameValue (CHR 0x22 # v @ CHR 0x22 # post) = Some v"
  using assms by (simp add: matchFilenameValue_def takeWhile_upto dropWhile_upto)

lemma containsText_matchAfter:
  "matchAfter key s = Some v \<Longrightarrow> containsText s key"
  by (induction s) (auto split: if_splits option.splits)

lemma guessFileName_header:
  assumes "hdrs ''content-disposition'' = Some cd" and "filenamePropertyExec cd = Some v" and "v \<noteq> []"
  shows "guessFileName url hdrs t = (if endsWith v (extension t) then v else v @ extension t)"
proof -
  have c: "containsText cd ''filename=''"
    using assms(2) unfolding filenamePropertyExec_def by (rule containsText_matchAfter)
  have "cd \<noteq> []"
  proof
    assume "cd = []"
    with assms(2) show False by (simp add: filenamePropertyExec_def)
  qed
  then show ?thesis
    using assms c by (simp add: guessFileName_def)
qed

lemma guessFileName_endsWith: "endsWith (guessFileName url hdrs t) (extension t)"
  by (simp add: guessFileName_def Let_def endsWith_append_same)

text \<open>
  C8 on the code: the header \<open>attachment; filename=a\<close> carries an unquoted \<open>filename=\<close>
  parameter of one character, and the URL \<open>http://x/y.torrent\<close> ends in the segment
  \<open>y.torrent\<close>. The name is taken from neither: the result is \<open>download.torrent\<close>. The
  second alternative of the pattern, \<open>[^"][^ ]+\<close>, needs two characters, so \<open>exec\<close>
  returns null, and the branch taken does not look at the URL. The same name is
  extracted when it is quoted (the first alternative needs one character only), and an
  unquoted name of two characters is extracted too. Besides, for a URL without a path the
  text after the last slash is the host: \<open>https://example.com\<close> is named
  \<open>example.com.torrent\<close>.
\<close>

theorem guessFileName_one_character_unquoted:
  "guessFileName ''http://x/y.torrent''
      (oneHeader ''content-disposition'' ''attachment; filename=a'') torrentType = ''download.torrent''
   \<and> afterLastSlash ''http://x/y.torrent'' = ''y.torrent''
   \<and> guessFileName ''http://x/y.torrent''
      (oneHeader ''content-disposition'' (''attachment; filename='' @ CHR 0x22 # ''a'' @ [CHR 0x22]))
      torrentType = ''a.torrent''
   \<and> guessFileName ''http://x/y.torrent''
      (oneHeader ''content-disposition'' ''attachment; filename=ab'') torrentType = ''ab.torrent''
   \<and> guessFileName ''https://example.com'' noHeaders torrentType = ''example.com.torrent''"
  by (simp add: guessFileName_def oneHeader_def noHeaders_def torrentType_def filenamePropertyExec_def
      matchFilenameValue_def afterLastSlash_def endsWith_def)

text \<open>
  What holds of the file name whatever the header and the URL: some non-empty name is
  chosen, the type's extension is appended to it unless it already ends with the
  extension, and so the result always ends with the extension. And when the header's
  first \<open>filename=\<close> is followed by a quoted value (one or more characters other than a
  double quote, between double quotes), the chosen name is that value.
\<close>

theorem guessFileName_extension:
  "endsWith (guessFileName url hdrs t) (extension t)
   \<and> (\<exists>name. name \<noteq> []
        \<and> guessFileName url hdrs t = (if endsWith name (extension t) then name else name @ extension t))
   \<and> (hdrs ''content-disposition'' = Some (pre @ ''filename='' @ CHR 0x22 # v @ CHR 0x22 # post)
      \<and> \<not> containsText (pre @ ''filename'') ''filename='' \<and> v \<noteq> [] \<and> CHR 0x22 \<notin> set v
    \<longrightarrow> guessFileName url hdrs t = (if endsWith v (extension t) then v else v @ extension t))"
proof (intro conjI impI)
  show "endsWith (guessFileName url hdrs t) (extension t)"
    by (rule guessFileName_endsWith)
next
  define maybeFilename where "maybeFilename =
      (case hdrs ''content-disposition'' of
         None \<Rightarrow> Some (afterLastSlash url)
       | Some contentDisposition \<Rightarrow>
           if contentDisposition \<noteq> [] \<and> containsText contentDisposition ''filename=''
           then filenamePropertyExec contentDisposition
           else Some (afterLastSlash url))"
  define name where "name = (case maybeFilename of
      None \<Rightarrow> ''download'' | Some f \<Rightarrow> if f = [] then ''download'' else f)"
  have "name \<noteq> []"
    by (cases maybeFilename) (simp_all add: name_def)
  moreover have "guessFileName url hdrs t =
      (if endsWith name (extension t) then name else name @ extension t)"
    by (simp add: guessFileName_def Let_def name_def maybeFilename_def)
  ultimately show "\<exists>name. name \<noteq> []
      \<and> guessFileName url hdrs t = (if endsWith name (extension t) then name else name @ extension t)"
    by blast
next
  assume a: "hdrs ''content-disposition'' = Some (pre @ ''filename='' @ CHR 0x22 # v @ CHR 0x22 # post)
      \<and> \<not> containsText (pre @ ''filename'') ''filename='' \<and> v \<noteq> [] \<and> CHR 0x22 \<notin> set v"
  then have "matchFilenameValue (CHR 0x22 # v @ CHR 0x22 # post) = Some v"
    by (simp add: matchFilenameValue_quoted)
  with a have "filenamePropertyExec (pre @ ''filename='' @ CHR 0x22 # v @ CHR 0x22 # post) = Some v"
    by (intro filenamePropertyExec_first) simp_all
  with a show "guessFileName url hdrs t = (if endsWith v (extension t) then v else v @ extension t)"
    by (intro guessFileName_header) simp_all
qed

text \<open>A quoted name that has the extension is kept as it is; one that lacks it gets it.\<close>

theorem guessFileName_extension_witness:
  "guessFileName ''http://x/y.torrent''
      (oneHeader ''content-disposition'' (''attachment; filename='' @ CHR 0x22 # ''ubuntu.torrent'' @ [CHR 0x22]))
      torrentType = ''ubuntu.torrent''
   \<and> guessFileName ''http://x/y.torrent''
      (oneHeader ''content-disposition'' (''attachment; filename='' @ CHR 0x22 # ''debian'' @ [CHR 0x22]))
      torrentType = ''debian.torrent''
   \<and> endsWith (guessFileName ''http://x/y'' noHeaders torrentType) ''.torrent''"
proof -
  have a: "guessFileName ''http://x/y.torrent''
      (oneHeader ''content-disposition'' (''attachment; filename='' @ CHR 0x22 # ''ubuntu.torrent'' @ [CHR 0x22]))
      torrentType = ''ubuntu.torrent''"
    using guessFileName_extension [of "''http://x/y.torrent''"
        "oneHeader ''content-disposition'' (''attachment; filename='' @ CHR 0x22 # ''ubuntu.torrent'' @ [CHR 0x22])"
        torrentType "''attachment; ''" "''ubuntu.torrent''" "[]"]
    by (simp add: oneHeader_def torrentType_def endsWith_def)
  have b: "guessFileName ''http://x/y.torrent''
      (oneHeader ''content-disposition'' (''attachment; filename='' @ CHR 0x22 # ''debian'' @ [CHR 0x22]))
      torrentType = ''debian.torrent''"
    using guessFileName_extension [of "''http://x/y.torrent''"
        "oneHeader ''content-disposition'' (''attachment; filename='' @ CHR 0x22 # ''debian'' @ [CHR 0x22])"
        torrentType "''attachment; ''" "''debian''" "[]"]
    by (simp add: oneHeader_def torrentType_def endsWith_def)
  have c: "endsWith (guessFileName ''http://x/y'' noHeaders torrentType) ''.torrent''"
    using guessFileName_extension [of "''http://x/y''" noHeaders torrentType]
    by (simp add: torrentType_def)
  show ?thesis
    by (intro conjI) (fact a b c)+
qed

subsection \<open>The submission pipeline\<close>

lemma doCreateTask_split:
  "\<exists>sv calls. doCreateTask env req w =
     (createOutcome env req (server w), w\<lparr>server := sv, apiCalls := apiCalls w @ calls\<rparr>)
     \<and> (calls = [TaskCreateCall req] \<or> calls = [TaskCreateCall req, AuthLogoutCall, TaskCreateCall req])"
proof -
  obtain r1 s1 where first: "taskCreate env req (server w) = (r1, s1)"
    by (cases "taskCreate env req (server w)")
  obtain r2 s2 where second: "taskCreate env req (authLogout env s1) = (r2, s2)"
    by (cases "taskCreate env req (authLogout env s1)")
  show ?thesis
  proof (cases "r1 = Fulfilled (Failure NO_PERMISSIONS_ERROR_CODE)")
    case True
    have a: "apiTaskCreate env req w = (Fulfilled (Failure NO_PERMISSIONS_ERROR_CODE),
        w\<lparr>server := s1, apiCalls := apiCalls w @ [TaskCreateCall req]\<rparr>)"
      using first True by (simp add: apiTaskCreate_def)
    have b: "apiTaskCreate env req (apiLogout env (w\<lparr>server := s1, apiCalls := apiCalls w @ [TaskCreateCall req]\<rparr>)) =
        (r2, w\<lparr>server := s2, apiCalls := apiCalls w @ [TaskCreateCall req, AuthLogoutCall, TaskCreateCall req]\<rparr>)"
      using second by (simp add: apiTaskCreate_def apiLogout_def)
    have "doCreateTask env req w =
        (r2, w\<lparr>server := s2, apiCalls := apiCalls w @ [TaskCreateCall req, AuthLogoutCall, TaskCreateCall req]\<rparr>)"
      unfolding doCreateTask_def
      using wrap_retry [of "apiTaskCreate env" req w, OF a] b by simp
    moreover have "createOutcome env req (server w) = r2"
      unfolding createOutcome_def
      using wrap_retry [of "taskCreate env" req "server w" s1 "authLogout env"] first second True
      by simp
    ultimately have "doCreateTask env req w = (createOutcome env req (server w),
          w\<lparr>server := s2, apiCalls := apiCalls w @ [TaskCreateCall req, AuthLogoutCall, TaskCreateCall req]\<rparr>)"
      by simp
    then show ?thesis by blast
  next
    case False
    have a: "apiTaskCreate env req w = (r1, w\<lparr>server := s1, apiCalls := apiCalls w @ [TaskCreateCall req]\<rparr>)"
      using first by (simp add: apiTaskCreate_def)
    have "doCreateTask env req w = (r1, w\<lparr>server := s1, apiCalls := apiCalls w @ [TaskCreateCall req]\<rparr>)"
      unfolding doCreateTask_def using a False by (rule wrap_pass)
    moreover have "createOutcome env req (server w) = r1"
      unfolding createOutcome_def
      using wrap_pass [of "taskCreate env" req "server w" r1 s1 "authLogout env"] first False
      by simp
    ultimately have "doCreateTask env req w = (createOutcome env req (server w),
          w\<lparr>server := s1, apiCalls := apiCalls w @ [TaskCreateCall req]\<rparr>)"
      by simp
    then show ?thesis by blast
  qed
qed

text \<open>A poll shows no notification, sends no HTTP request and calls nothing but the task
  list and the logout.\<close>

lemma pollTasks_frame:
  "\<exists>calls. set calls \<subseteq> insert AuthLogoutCall (range TaskListCall)
     \<and> apiCalls (snd (pollTasks env w)) = apiCalls w @ calls
     \<and> notificationLog (snd (pollTasks env w)) = notificationLog w
     \<and> nextNotificationId (snd (pollTasks env w)) = nextNotificationId w
     \<and> httpLog (snd (pollTasks env w)) = httpLog w
     \<and> fst (pollTasks env w) = Fulfilled ()"
proof -
  obtain sv calls where c: "set calls \<subseteq> insert AuthLogoutCall (range TaskListCall)"
    and run: "pollTasks env w = (Fulfilled (),
       (if storageSetRejects env (length (storageLog w)) then
          w\<lparr>server := sv, apiCalls := apiCalls w @ calls,
            storageLog := storageLog w @ [(initWrite (dateNow env (clockReads w)), False)],
            clockReads := Suc (clockReads w),
            errorLog := errorLog w @ [''storage.local.set rejected'']\<rparr>
        else
          (case taskPollOutcome env (server w) of
             Rejected e \<Rightarrow>
               w\<lparr>server := sv, apiCalls := apiCalls w @ calls,
                 storage := storageMerge (initWrite (dateNow env (clockReads w))) (storage w),
                 storageLog := storageLog w @ [(initWrite (dateNow env (clockReads w)), True)],
                 clockReads := Suc (clockReads w),
                 errorLog := errorLog w @ [e]\<rparr>
           | Fulfilled response \<Rightarrow>
               if storageSetRejects env (Suc (length (storageLog w))) then
                 w\<lparr>server := sv, apiCalls := apiCalls w @ calls,
                   storage := storageMerge (initWrite (dateNow env (clockReads w))) (storage w),
                   storageLog := storageLog w @ [(initWrite (dateNow env (clockReads w)), True),
                      (resultWrite env (dateNow env (Suc (clockReads w))) response, False)],
                   clockReads := Suc (Suc (clockReads w)),
                   errorLog := errorLog w @ [''storage.local.set rejected'']\<rparr>
               else
                 w\<lparr>server := sv, apiCalls := apiCalls w @ calls,
                   storage := storageMerge (resultWrite env (dateNow env (Suc (clockReads w))) response)
                      (storageMerge (initWrite (dateNow env (clockReads w))) (storage w)),
                   storageLog := storageLog w @ [(initWrite (dateNow env (clockReads w)), True),
                      (resultWrite env (dateNow env (Suc (clockReads w))) response, True)],
                   clockReads := Suc (Suc (clockReads w))\<rparr>)))"
    using pollTasks_run [of env w] by blast
  have "apiCalls (snd (pollTasks env w)) = apiCalls w @ calls
     \<and> notificationLog (snd (pollTasks env w)) = notificationLog w
     \<and> nextNotificationId (snd (pollTasks env w)) = nextNotificationId w
     \<and> httpLog (snd (pollTasks env w)) = httpLog w
     \<and> fst (pollTasks env w) = Fulfilled ()"
    unfolding run by (simp split: settled.splits)
  with c show ?thesis by blast
qed

text \<open>
  What a submission of at least one URL does to the notifications and to the client:
  the starting notification is created; if no item resolved, nothing else happens; else
  the create request is sent (twice around a logout on a permission failure), and
  then either the create call was rejected and the notification is updated with the
  unexpected-error text, or it settled to a result and the tasks are polled, with no
  further notification.
\<close>

lemma addDownloadTasksAndPoll_run:
  assumes "urls \<noteq> []"
  shows "\<exists>calls polls.
     fst (addDownloadTasksAndPoll env urls path w) = Fulfilled ()
     \<and> apiCalls (snd (addDownloadTasksAndPoll env urls path w)) = apiCalls w @ calls @ polls
     \<and> set polls \<subseteq> insert AuthLogoutCall (range TaskListCall)
     \<and> (if resolvedItems env urls = [] then calls = []
         else calls = [TaskCreateCall (createRequestOf env urls path)]
           \<or> calls = [TaskCreateCall (createRequestOf env urls path), AuthLogoutCall,
                       TaskCreateCall (createRequestOf env urls path)])
     \<and> notificationLog (snd (addDownloadTasksAndPoll env urls path w)) =
          notificationLog w @ startNotification urls (nextNotificationId w) #
            (if resolvedItems env urls = [] then []
             else (case createOutcome env (createRequestOf env urls path) (server w) of
                     Fulfilled result \<Rightarrow> []
                   | Rejected e \<Rightarrow>
                       [NotificationUpdated (nextNotificationId w) ''Failed to add download''
                          (Some ''Unexpected error; please check your settings and try again'')]))
     \<and> httpLog (snd (addDownloadTasksAndPoll env urls path w)) =
          httpLog w @ concat (map (\<lambda>url. snd (maybeMapUrlToFile env url)) urls)"
proof -
  define n where "n = nextNotificationId w"
  define W1 where "W1 = w\<lparr>notificationLog := notificationLog w @ [startNotification urls n],
      nextNotificationId := Suc n\<rparr>"
  define W2 where "W2 = W1\<lparr>httpLog := httpLog W1 @ concat (map (\<lambda>url. snd (maybeMapUrlToFile env url)) urls)\<rparr>"
  define req where "req = createRequestOf env urls path"
  obtain resolved rejected where part:
    "partitionPromises (map (\<lambda>url. rejectUnknownUrls (fst (maybeMapUrlToFile env url))) urls) =
       (resolved, rejected)"
    by (cases "partitionPromises (map (\<lambda>url. rejectUnknownUrls (fst (maybeMapUrlToFile env url))) urls)")
  then have resolved: "resolvedItems env urls = resolved"
    by (simp add: resolvedItems_def)
  obtain fs us where split: "splitItems resolved = (fs, us)"
    by (cases "splitItems resolved")
  then have req: "req = \<lparr>file_items = fs, uri = us, destination = destinationOf path\<rparr>"
    by (simp add: req_def createRequestOf_def resolved)
  have unfold: "addDownloadTasksAndPoll env urls path w =
      catchDo
        (if resolved = [] then (Fulfilled (), W2)
         else thenDo (doCreateTask env req W2) (\<lambda>result. pollTasks env))
        (notifyUnexpectedError (Some n))"
    using assms
    by (cases "length urls = 1")
      (simp_all add: addDownloadTasksAndPoll_def notify_def startNotification_def part split req
        W2_def W1_def n_def Let_def)
  have w2: "apiCalls W2 = apiCalls w" "server W2 = server w"
      "notificationLog W2 = notificationLog w @ [startNotification urls n]"
      "httpLog W2 = httpLog w @ concat (map (\<lambda>url. snd (maybeMapUrlToFile env url)) urls)"
    by (simp_all add: W2_def W1_def)
  show ?thesis
  proof (cases "resolved = []")
    case True
    then have "addDownloadTasksAndPoll env urls path w = (Fulfilled (), W2)"
      unfolding unfold by (simp add: catchDo_def)
    then show ?thesis
      using True w2 by (simp add: resolved n_def)
  next
    case False
    obtain sv calls where dc: "doCreateTask env req W2 =
        (createOutcome env req (server w), W2\<lparr>server := sv, apiCalls := apiCalls w @ calls\<rparr>)"
      and calls: "calls = [TaskCreateCall req] \<or> calls = [TaskCreateCall req, AuthLogoutCall, TaskCreateCall req]"
      using doCreateTask_split [of env req W2] w2 by auto
    define W3 where "W3 = W2\<lparr>server := sv, apiCalls := apiCalls w @ calls\<rparr>"
    have w3: "apiCalls W3 = apiCalls w @ calls"
      "notificationLog W3 = notificationLog w @ [startNotification urls n]"
      "httpLog W3 = httpLog w @ concat (map (\<lambda>url. snd (maybeMapUrlToFile env url)) urls)"
      by (simp_all add: W3_def w2)
    show ?thesis
    proof (cases "createOutcome env req (server w)")
      case (Rejected e)
      have "addDownloadTasksAndPoll env urls path w = notifyUnexpectedError (Some n) e W3"
        unfolding unfold using False Rejected dc by (simp add: catchDo_def thenDo_def W3_def)
      then have "fst (addDownloadTasksAndPoll env urls path w) = Fulfilled ()
          \<and> apiCalls (snd (addDownloadTasksAndPoll env urls path w)) = apiCalls w @ calls @ []
          \<and> notificationLog (snd (addDownloadTasksAndPoll env urls path w)) =
              notificationLog w @ [startNotification urls n,
                NotificationUpdated n ''Failed to add download''
                  (Some ''Unexpected error; please check your settings and try again'')]
          \<and> httpLog (snd (addDownloadTasksAndPoll env urls path w)) =
              httpLog w @ concat (map (\<lambda>url. snd (maybeMapUrlToFile env url)) urls)"
        by (simp add: notifyUnexpectedError_def notify_def w3)
      then show ?thesis
        using False Rejected calls
        by (intro exI [of _ calls] exI [of _ "[]"]) (simp add: resolved req_def [symmetric] n_def)
    next
      case (Fulfilled result)
      obtain polls where polls: "set polls \<subseteq> insert AuthLogoutCall (range TaskListCall)"
        and pf: "apiCalls (snd (pollTasks env W3)) = apiCalls W3 @ polls"
          "notificationLog (snd (pollTasks env W3)) = notificationLog W3"
          "httpLog (snd (pollTasks env W3)) = httpLog W3"
          "fst (pollTasks env W3) = Fulfilled ()"
        using pollTasks_frame [of env W3] by blast
      obtain W4 where p: "pollTasks env W3 = (Fulfilled (), W4)"
        using pf(4) by (cases "pollTasks env W3") simp
      have "addDownloadTasksAndPoll env urls path w = (Fulfilled (), W4)"
        unfolding unfold using False Fulfilled dc p by (simp add: catchDo_def thenDo_def W3_def)
      then have "fst (addDownloadTasksAndPoll env urls path w) = Fulfilled ()
          \<and> apiCalls (snd (addDownloadTasksAndPoll env urls path w)) = apiCalls w @ calls @ polls
          \<and> notificationLog (snd (addDownloadTasksAndPoll env urls path w)) =
              notificationLog w @ [startNotification urls n]
          \<and> httpLog (snd (addDownloadTasksAndPoll env urls path w)) =
              httpLog w @ concat (map (\<lambda>url. snd (maybeMapUrlToFile env url)) urls)"
        using pf p by (simp add: w3)
      then show ?thesis
        using False Fulfilled calls polls
        by (intro exI [of _ calls] exI [of _ polls]) (simp add: resolved req_def [symmetric] n_def)
    qed
  qed
qed

lemma demo_resolved_magnet:
  "resolvedItems (demoEnv h g r) [''magnet:?xt=urn:btih:abc''] = [Url ''magnet:?xt=urn:btih:abc'']"
  by (simp add: resolvedItems_def maybeMapUrlToFile_def rejectUnknownUrls_def
      startsWithAnyProtocol_def AUTO_DOWNLOAD_TORRENT_FILE_PROTOCOLS_def DOWNLOADABLE_PROTOCOLS_def)

lemma demo_create_magnet:
  "createRequestOf (demoEnv h g r) [''magnet:?xt=urn:btih:abc''] path =
     \<lparr>file_items = [], uri = [''magnet:?xt=urn:btih:abc''], destination = destinationOf path\<rparr>"
  by (simp add: createRequestOf_def demo_resolved_magnet)

lemma demo_createOutcome:
  "createOutcome (demoEnv h g r) req (server (demoWorld (ls, [Fulfilled (Success ())]))) =
     Fulfilled (Success ())"
  by (simp add: createOutcome_def wrapInNoPermissionsRetry_def demoEnv_def demoWorld_def)

text \<open>
  C9, as stated, fails: for the path \<open>downloads\<close> (no leading slash) the create request
  carries no destination at all, not the path unchanged.
\<close>

theorem create_request_destination_counterexample:
  "TaskCreateCall \<lparr>file_items = [], uri = [''magnet:?xt=urn:btih:abc''], destination = None\<rparr>
     \<in> set (apiCalls (snd (addDownloadTasksAndPoll (demoEnv noHttp noHttp (\<lambda>k. False))
          [''magnet:?xt=urn:btih:abc''] (Some ''downloads'') (demoWorld ([], [Fulfilled (Success ())])))))
   \<and> TaskCreateCall \<lparr>file_items = [], uri = [''magnet:?xt=urn:btih:abc''], destination = Some ''downloads''\<rparr>
     \<notin> set (apiCalls (snd (addDownloadTasksAndPoll (demoEnv noHttp noHttp (\<lambda>k. False))
          [''magnet:?xt=urn:btih:abc''] (Some ''downloads'') (demoWorld ([], [Fulfilled (Success ())])))))"
proof -
  let ?env = "demoEnv noHttp noHttp (\<lambda>k. False)"
  let ?w = "demoWorld ([], [Fulfilled (Success ())])"
  let ?urls = "[''magnet:?xt=urn:btih:abc'']"
  have req: "createRequestOf ?env ?urls (Some ''downloads'') =
      \<lparr>file_items = [], uri = [''magnet:?xt=urn:btih:abc''], destination = None\<rparr>"
    by (simp add: demo_create_magnet destinationOf_def)
  obtain calls polls where run:
    "apiCalls (snd (addDownloadTasksAndPoll ?env ?urls (Some ''downloads'') ?w)) = apiCalls ?w @ calls @ polls"
    "set polls \<subseteq> insert AuthLogoutCall (range TaskListCall)"
    "calls = [TaskCreateCall (createRequestOf ?env ?urls (Some ''downloads''))]
       \<or> calls = [TaskCreateCall (createRequestOf ?env ?urls (Some ''downloads'')), AuthLogoutCall,
                   TaskCreateCall (createRequestOf ?env ?urls (Some ''downloads''))]"
    using addDownloadTasksAndPoll_run [of ?urls ?env "Some ''downloads''" ?w]
    by (auto simp: demo_resolved_magnet)
  have w: "apiCalls ?w = []"
    by (simp add: demoWorld_def)
  show ?thesis
    using run unfolding req w by auto
qed

text \<open>
  C9, amended. For a submission of at least one URL with a destination path, every
  create request sent carries as destination the path without its leading slash when
  the path starts with a slash, and no destination when it does not; and a create
  request is sent whenever at least one item resolved.
\<close>

theorem create_request_destination:
  assumes "urls \<noteq> []"
  shows "\<exists>calls. apiCalls (snd (addDownloadTasksAndPoll env urls (Some p) w)) = apiCalls w @ calls
     \<and> (\<forall>req. TaskCreateCall req \<in> set calls \<longrightarrow>
           destination req = (if startsWith p ''/'' then Some (tl p) else None))
     \<and> (resolvedItems env urls \<noteq> [] \<longrightarrow> (\<exists>req. TaskCreateCall req \<in> set calls))"
proof -
  obtain calls polls where run:
    "apiCalls (snd (addDownloadTasksAndPoll env urls (Some p) w)) = apiCalls w @ calls @ polls"
    "set polls \<subseteq> insert AuthLogoutCall (range TaskListCall)"
    "if resolvedItems env urls = [] then calls = []
       else calls = [TaskCreateCall (createRequestOf env urls (Some p))]
         \<or> calls = [TaskCreateCall (createRequestOf env urls (Some p)), AuthLogoutCall,
                     TaskCreateCall (createRequestOf env urls (Some p))]"
    using addDownloadTasksAndPoll_run [OF assms, of env "Some p" w] by blast
  have d: "destination (createRequestOf env urls (Some p)) =
      (if startsWith p ''/'' then Some (tl p) else None)"
    by (cases p) (simp_all add: createRequestOf_def destinationOf_def)
  have a: "\<forall>req. TaskCreateCall req \<in> set (calls @ polls) \<longrightarrow>
      destination req = (if startsWith p ''/'' then Some (tl p) else None)"
    using run(2,3) d by (auto split: if_splits)
  have b: "resolvedItems env urls \<noteq> [] \<longrightarrow> (\<exists>req. TaskCreateCall req \<in> set (calls @ polls))"
    using run(3) by (auto split: if_splits)
  show ?thesis
    using run(1) a b by (intro exI [of _ "calls @ polls"]) blast
qed

text \<open>A magnet link submitted with the path \<open>/downloads\<close>: the create request is sent and
  its destination is \<open>downloads\<close>.\<close>

theorem create_request_destination_witness:
  "[''magnet:?xt=urn:btih:abc''] \<noteq> []
   \<and> resolvedItems (demoEnv noHttp noHttp (\<lambda>k. False)) [''magnet:?xt=urn:btih:abc''] \<noteq> []
   \<and> (\<exists>req. TaskCreateCall req
          \<in> set (apiCalls (snd (addDownloadTasksAndPoll (demoEnv noHttp noHttp (\<lambda>k. False))
               [''magnet:?xt=urn:btih:abc''] (Some ''/downloads'') (demoWorld ([], [Fulfilled (Success ())])))))
        \<and> destination req = Some ''downloads'')"
proof -
  let ?env = "demoEnv noHttp noHttp (\<lambda>k. False)"
  let ?w = "demoWorld ([], [Fulfilled (Success ())])"
  let ?urls = "[''magnet:?xt=urn:btih:abc'']"
  have ne: "?urls \<noteq> []" by simp
  have res: "resolvedItems ?env ?urls \<noteq> []"
    by (simp add: demo_resolved_magnet)
  obtain calls where c:
    "apiCalls (snd (addDownloadTasksAndPoll ?env ?urls (Some ''/downloads'') ?w)) = apiCalls ?w @ calls"
    "\<forall>req. TaskCreateCall req \<in> set calls \<longrightarrow>
       destination req = (if startsWith ''/downloads'' ''/'' then Some (tl ''/downloads'') else None)"
    "resolvedItems ?env ?urls \<noteq> [] \<longrightarrow> (\<exists>req. TaskCreateCall req \<in> set calls)"
    using create_request_destination [OF ne, of ?env "''/downloads''" ?w] by blast
  obtain req where req: "TaskCreateCall req \<in> set calls"
    using c(3) res by blast
  then have "destination req = Some ''downloads''"
    using c(2) by simp
  moreover have "TaskCreateCall req
      \<in> set (apiCalls (snd (addDownloadTasksAndPoll ?env ?urls (Some ''/downloads'') ?w)))"
    using c(1) req by simp
  ultimately have "\<exists>req. TaskCreateCall req
      \<in> set (apiCalls (snd (addDownloadTasksAndPoll ?env ?urls (Some ''/downloads'') ?w)))
        \<and> destination req = Some ''downloads''"
    by blast
  with ne res show ?thesis by blast
qed

text \<open>
  C4 on the code: a magnet link is submitted and the create call succeeds. The starting
  notification is created, and that is all: nothing updates it once the create call has
  settled (the source's \<open>notifyTaskAddResult\<close>, which would, is never called).
\<close>

theorem addDownloadTasksAndPoll_no_result_notification:
  "createOutcome (demoEnv noHttp noHttp (\<lambda>k. False))
      (createRequestOf (demoEnv noHttp noHttp (\<lambda>k. False)) [''magnet:?xt=urn:btih:abc''] None)
      (server (demoWorld ([], [Fulfilled (Success ())]))) = Fulfilled (Success ())
   \<and> notificationLog (snd (addDownloadTasksAndPoll (demoEnv noHttp noHttp (\<lambda>k. False))
        [''magnet:?xt=urn:btih:abc''] None (demoWorld ([], [Fulfilled (Success ())])))) =
      [NotificationCreated 0 ''Adding download...'' (Some ''magnet:?xt=urn:btih:abc'')]
   \<and> notificationLog (notifyTaskAddResult (demoEnv noHttp noHttp (\<lambda>k. False))
        [''magnet:?xt=urn:btih:abc''] (Some 0) None (Success ())
        (snd (addDownloadTasksAndPoll (demoEnv noHttp noHttp (\<lambda>k. False))
           [''magnet:?xt=urn:btih:abc''] None (demoWorld ([], [Fulfilled (Success ())]))))) =
      [NotificationCreated 0 ''Adding download...'' (Some ''magnet:?xt=urn:btih:abc''),
       NotificationUpdated 0 ''Download added'' (Some ''magnet:?xt=urn:btih:abc'')]"
proof -
  let ?env = "demoEnv noHttp noHttp (\<lambda>k. False)"
  let ?w = "demoWorld ([], [Fulfilled (Success ())])"
  let ?urls = "[''magnet:?xt=urn:btih:abc'']"
  have a: "createOutcome ?env (createRequestOf ?env ?urls None) (server ?w) = Fulfilled (Success ())"
    by (rule demo_createOutcome)
  have w: "notificationLog ?w = []" "nextNotificationId ?w = 0"
    by (simp_all add: demoWorld_def)
  have b: "notificationLog (snd (addDownloadTasksAndPoll ?env ?urls None ?w)) =
      [NotificationCreated 0 ''Adding download...'' (Some ''magnet:?xt=urn:btih:abc'')]"
    using addDownloadTasksAndPoll_run [of ?urls ?env None ?w]
    by (auto simp: demo_resolved_magnet a w startNotification_def)
  have c: "notificationLog (notifyTaskAddResult ?env ?urls (Some 0) None (Success ())
        (snd (addDownloadTasksAndPoll ?env ?urls None ?w))) =
      [NotificationCreated 0 ''Adding download...'' (Some ''magnet:?xt=urn:btih:abc''),
       NotificationUpdated 0 ''Download added'' (Some ''magnet:?xt=urn:btih:abc'')]"
    by (simp add: notifyTaskAddResult_def notify_def b)
  show ?thesis
    by (intro conjI) (fact a b c)+
qed

subsection \<open>Resolving one URL\<close>

text \<open>
  C7 on the code: a torrent URL whose HEAD response has a content length of 1024 and no
  \<open>content-type\<close> header. The URL matches a metadata type by its suffix and the length is
  known and under the cutoff, yet no file is fetched and no item is yielded: the
  promise is rejected (the TypeError of \<open>toLowerCase\<close> on \<open>undefined\<close>), and the submission
  of this URL alone resolves no item.
\<close>

theorem maybeMapUrlToFile_missing_content_type:
  "maybeMapUrlToFile
      (demoEnv (answering (oneHeader ''content-length'' ''1024'') [])
         (answering noHeaders ''d8:announce'') (\<lambda>k. False))
      ''https://x/y.torrent'' =
     (Rejected ''TypeError'', [Head ''https://x/y.torrent''])
   \<and> resolvedItems
      (demoEnv (answering (oneHeader ''content-length'' ''1024'') [])
         (answering noHeaders ''d8:announce'') (\<lambda>k. False))
      [''https://x/y.torrent''] = []"
  by (simp add: resolvedItems_def rejectUnknownUrls_def maybeMapUrlToFile_def demoEnv_def
      answering_def oneHeader_def startsWithAnyProtocol_def AUTO_DOWNLOAD_TORRENT_FILE_PROTOCOLS_def)

lemma find_metadata_type:
  "find (\<lambda>fileType. ct = mediaType fileType \<or> endsWith u (extension fileType)) METADATA_FILE_TYPES \<noteq> None
   \<longleftrightarrow> ct = ''application/x-bittorrent'' \<or> endsWith u ''.torrent''
       \<or> ct = ''application/x-nzb'' \<or> endsWith u ''.nzb''"
  by (auto simp: METADATA_FILE_TYPES_def)

text \<open>
  What holds of the per-URL resolution. A URL that does not start with \<open>http:\<close> or
  \<open>https:\<close> is yielded as it is and no request is sent. For one that does, when the
  HEAD request is answered and the answer has a \<open>content-type\<close> header: if a metadata
  type matches (by the lower-cased media type or by the suffix of the URL without its
  query), the numeric value of the content length is not NaN and is under 5242880, and
  the GET is answered, a file item is yielded, made of the GET's body, the type's media
  type (the first matching type of the table) and the guessed file name; if a type matches and the numeric value is NaN (a
  missing header gives NaN) or not under 5242880, the URL is yielded as it is and only
  the HEAD request was sent.
\<close>

theorem maybeMapUrlToFile_resolution:
  fixes env :: "'w env"
  defines "noQuery url \<equiv> (if CHR ''?'' \<in> set url then takeWhile (\<lambda>c. c \<noteq> CHR ''?'') url else url)"
  defines "matches ct url \<equiv> toLowerCase ct = ''application/x-bittorrent'' \<or> endsWith (noQuery url) ''.torrent''
       \<or> toLowerCase ct = ''application/x-nzb'' \<or> endsWith (noQuery url) ''.nzb''"
  shows "(\<not> (startsWith url ''http:'' \<or> startsWith url ''https:'') \<longrightarrow>
            maybeMapUrlToFile env url = (Fulfilled (Url url), []))
     \<and> ((startsWith url ''http:'' \<or> startsWith url ''https:'')
          \<and> axiosHead env url = Fulfilled response
          \<and> headers response ''content-type'' = Some ct \<and> matches ct url
          \<and> \<not> isNaN (unaryPlus env (headers response ''content-length''))
          \<and> jsLess (unaryPlus env (headers response ''content-length'')) 5242880
          \<and> axiosGet env url = Fulfilled got \<longrightarrow>
            (\<exists>fileType.
               find (\<lambda>fileType. toLowerCase ct = mediaType fileType
                       \<or> endsWith (noQuery url) (extension fileType)) METADATA_FILE_TYPES = Some fileType
               \<and> maybeMapUrlToFile env url =
                 (Fulfilled (FormFile
                    \<lparr>content = \<lparr>blob_parts = body got, blob_type = mediaType fileType\<rparr>,
                     filename = guessFileName (noQuery url) (headers got) fileType\<rparr>),
                  [Head url, Get url])))
     \<and> ((startsWith url ''http:'' \<or> startsWith url ''https:'')
          \<and> axiosHead env url = Fulfilled response
          \<and> headers response ''content-type'' = Some ct \<and> matches ct url
          \<and> (isNaN (unaryPlus env (headers response ''content-length''))
              \<or> \<not> jsLess (unaryPlus env (headers response ''content-length'')) 5242880) \<longrightarrow>
            maybeMapUrlToFile env url = (Fulfilled (Url url), [Head url]))
     \<and> unaryPlus env None = NaN"
proof -
  have proto: "startsWithAnyProtocol url AUTO_DOWNLOAD_TORRENT_FILE_PROTOCOLS \<longleftrightarrow>
      startsWith url ''http:'' \<or> startsWith url ''https:''"
    by (simp add: startsWithAnyProtocol_def AUTO_DOWNLOAD_TORRENT_FILE_PROTOCOLS_def
        del: startsWith.simps)
  have m: "matches ct url \<longleftrightarrow>
      find (\<lambda>fileType. toLowerCase ct = mediaType fileType \<or> endsWith (noQuery url) (extension fileType))
        METADATA_FILE_TYPES \<noteq> None"
    unfolding matches_def by (rule find_metadata_type [symmetric])
  have cut: "ARBITRARY_FILE_FETCH_SIZE_CUTOFF = 5242880"
    by (simp add: ARBITRARY_FILE_FETCH_SIZE_CUTOFF_def)
  show ?thesis
  proof (intro conjI impI)
    assume "\<not> (startsWith url ''http:'' \<or> startsWith url ''https:'')"
    then show "maybeMapUrlToFile env url = (Fulfilled (Url url), [])"
      using proto by (simp add: maybeMapUrlToFile_def del: startsWith.simps)
  next
    assume a: "(startsWith url ''http:'' \<or> startsWith url ''https:'')
          \<and> axiosHead env url = Fulfilled response
          \<and> headers response ''content-type'' = Some ct \<and> matches ct url
          \<and> \<not> isNaN (unaryPlus env (headers response ''content-length''))
          \<and> jsLess (unaryPlus env (headers response ''content-length'')) 5242880
          \<and> axiosGet env url = Fulfilled got"
    then obtain fileType where f: "find (\<lambda>fileType. toLowerCase ct = mediaType fileType
          \<or> endsWith (noQuery url) (extension fileType)) METADATA_FILE_TYPES = Some fileType"
      using m by auto
    have "maybeMapUrlToFile env url =
        (Fulfilled (FormFile
           \<lparr>content = \<lparr>blob_parts = body got, blob_type = mediaType fileType\<rparr>,
            filename = guessFileName (noQuery url) (headers got) fileType\<rparr>),
         [Head url, Get url])"
      using a proto f [unfolded noQuery_def]
      by (simp add: maybeMapUrlToFile_def cut noQuery_def Let_def del: startsWith.simps)
    with f show "\<exists>fileType.
        find (\<lambda>fileType. toLowerCase ct = mediaType fileType
                \<or> endsWith (noQuery url) (extension fileType)) METADATA_FILE_TYPES = Some fileType
        \<and> maybeMapUrlToFile env url =
          (Fulfilled (FormFile
             \<lparr>content = \<lparr>blob_parts = body got, blob_type = mediaType fileType\<rparr>,
              filename = guessFileName (noQuery url) (headers got) fileType\<rparr>),
           [Head url, Get url])"
      by blast
  next
    assume a: "(startsWith url ''http:'' \<or> startsWith url ''https:'')
          \<and> axiosHead env url = Fulfilled response
          \<and> headers response ''content-type'' = Some ct \<and> matches ct url
          \<and> (isNaN (unaryPlus env (headers response ''content-length''))
              \<or> \<not> jsLess (unaryPlus env (headers response ''content-length'')) 5242880)"
    then obtain fileType where f: "find (\<lambda>fileType. toLowerCase ct = mediaType fileType
          \<or> endsWith (noQuery url) (extension fileType)) METADATA_FILE_TYPES = Some fileType"
      using m by auto
    show "maybeMapUrlToFile env url = (Fulfilled (Url url), [Head url])"
      using a proto f [unfolded noQuery_def]
      by (auto simp add: maybeMapUrlToFile_def cut noQuery_def Let_def simp del: startsWith.simps)
  next
    show "unaryPlus env None = NaN"
      by (simp add: unaryPlus_def)
  qed
qed


lemma demo_http:
  "axiosHead (demoEnv h g r) = h" "axiosGet (demoEnv h g r) = g"
  by (simp_all add: demoEnv_def)

lemma demo_unaryPlus:
  "unaryPlus (demoEnv h g r) (Some ''1024'') = Finite 1024"
  "unaryPlus (demoEnv h g r) (Some ''10485760'') = Finite 10485760"
  "unaryPlus (demoEnv h g r) None = NaN"
  by (simp_all add: unaryPlus_def demoEnv_def decimalToNumber_def)

text \<open>
  Scenarios C, D and E of the specification, and a torrent URL whose HEAD response has no
  content length: the magnet link is yielded unprobed; \<open>y.torrent\<close> (1024 bytes) is
  fetched and named \<open>y.torrent\<close>; \<open>big.torrent\<close> (10485760 bytes) and the one of unknown
  length are yielded as URLs after the HEAD request alone.
\<close>

theorem maybeMapUrlToFile_resolution_witness:
  "maybeMapUrlToFile (demoEnv noHttp noHttp (\<lambda>k. False)) ''magnet:?xt=urn:btih:abc'' =
     (Fulfilled (Url ''magnet:?xt=urn:btih:abc''), [])
   \<and> maybeMapUrlToFile
       (demoEnv (answering (twoHeaders ''content-type'' ''application/x-bittorrent''
                    ''content-length'' ''1024'') [])
          (answering noHeaders ''d8:announce'') (\<lambda>k. False))
       ''https://x/y.torrent'' =
     (Fulfilled (FormFile
        \<lparr>content = \<lparr>blob_parts = ''d8:announce'', blob_type = ''application/x-bittorrent''\<rparr>,
         filename = ''y.torrent''\<rparr>),
      [Head ''https://x/y.torrent'', Get ''https://x/y.torrent''])
   \<and> maybeMapUrlToFile
       (demoEnv (answering (twoHeaders ''content-type'' ''application/x-bittorrent''
                    ''content-length'' ''10485760'') [])
          (answering noHeaders ''d8:announce'') (\<lambda>k. False))
       ''https://x/big.torrent'' =
     (Fulfilled (Url ''https://x/big.torrent''), [Head ''https://x/big.torrent''])
   \<and> maybeMapUrlToFile
       (demoEnv (answering (oneHeader ''content-type'' ''text/html'') [])
          (answering noHeaders ''d8:announce'') (\<lambda>k. False))
       ''https://x/y.torrent'' =
     (Fulfilled (Url ''https://x/y.torrent''), [Head ''https://x/y.torrent''])"
proof -
  let ?small = "demoEnv (answering (twoHeaders ''content-type'' ''application/x-bittorrent''
                    ''content-length'' ''1024'') [])
          (answering noHeaders ''d8:announce'') (\<lambda>k. False)"
  let ?big = "demoEnv (answering (twoHeaders ''content-type'' ''application/x-bittorrent''
                    ''content-length'' ''10485760'') [])
          (answering noHeaders ''d8:announce'') (\<lambda>k. False)"
  let ?unknown = "demoEnv (answering (oneHeader ''content-type'' ''text/html'') [])
          (answering noHeaders ''d8:announce'') (\<lambda>k. False)"
  have lower: "toLowerCase ''application/x-bittorrent'' = ''application/x-bittorrent''"
    by (simp add: toLowerCase_def toLowerChar_def)
  have a: "maybeMapUrlToFile (demoEnv noHttp noHttp (\<lambda>k. False)) ''magnet:?xt=urn:btih:abc'' =
     (Fulfilled (Url ''magnet:?xt=urn:btih:abc''), [])"
    using maybeMapUrlToFile_resolution [of "''magnet:?xt=urn:btih:abc''"
        "demoEnv noHttp noHttp (\<lambda>k. False)"]
    by simp
  have "\<exists>fileType.
      find (\<lambda>fileType. toLowerCase ''application/x-bittorrent'' = mediaType fileType
              \<or> endsWith ''https://x/y.torrent'' (extension fileType)) METADATA_FILE_TYPES = Some fileType
      \<and> maybeMapUrlToFile ?small ''https://x/y.torrent'' =
        (Fulfilled (FormFile
           \<lparr>content = \<lparr>blob_parts = ''d8:announce'', blob_type = mediaType fileType\<rparr>,
            filename = guessFileName ''https://x/y.torrent'' noHeaders fileType\<rparr>),
         [Head ''https://x/y.torrent'', Get ''https://x/y.torrent''])"
    using maybeMapUrlToFile_resolution [of "''https://x/y.torrent''" ?small
        "\<lparr>headers = twoHeaders ''content-type'' ''application/x-bittorrent'' ''content-length'' ''1024'',
          body = []\<rparr>"
        "''application/x-bittorrent''" "\<lparr>headers = noHeaders, body = ''d8:announce''\<rparr>"]
    by (simp add: demo_unaryPlus demo_http lower answering_def twoHeaders_def)
  then have b: "maybeMapUrlToFile ?small ''https://x/y.torrent'' =
     (Fulfilled (FormFile
        \<lparr>content = \<lparr>blob_parts = ''d8:announce'', blob_type = ''application/x-bittorrent''\<rparr>,
         filename = ''y.torrent''\<rparr>),
      [Head ''https://x/y.torrent'', Get ''https://x/y.torrent''])"
    by (auto simp: METADATA_FILE_TYPES_def lower guessFileName_def noHeaders_def afterLastSlash_def
        endsWith_def)
  have c: "maybeMapUrlToFile ?big ''https://x/big.torrent'' =
     (Fulfilled (Url ''https://x/big.torrent''), [Head ''https://x/big.torrent''])"
    using maybeMapUrlToFile_resolution [of "''https://x/big.torrent''" ?big
        "\<lparr>headers = twoHeaders ''content-type'' ''application/x-bittorrent'' ''content-length'' ''10485760'',
          body = []\<rparr>"
        "''application/x-bittorrent''"]
    by (simp add: demo_unaryPlus demo_http lower answering_def twoHeaders_def)
  have d: "maybeMapUrlToFile ?unknown ''https://x/y.torrent'' =
     (Fulfilled (Url ''https://x/y.torrent''), [Head ''https://x/y.torrent''])"
    using maybeMapUrlToFile_resolution [of "''https://x/y.torrent''" ?unknown
        "\<lparr>headers = oneHeader ''content-type'' ''text/html'', body = []\<rparr>" "''text/html''"]
    by (simp add: demo_unaryPlus demo_http answering_def oneHeader_def endsWith_def)
  show ?thesis
    by (intro conjI) (fact a b c d)+
qed

text \<open>
  What a submission of at least one URL shows: the promise it returns is fulfilled; one
  notification is created at the start, worded for one URL or for several; and it is
  updated afterwards only when at least one item resolved and the create call was
  rejected, with the unexpected-error text. When the create call settles to a result,
  whatever it is, no notification is created or updated.
\<close>

theorem addDownloadTasksAndPoll_notifications:
  assumes "urls \<noteq> []"
  shows "fst (addDownloadTasksAndPoll env urls path w) = Fulfilled ()
     \<and> notificationLog (snd (addDownloadTasksAndPoll env urls path w)) =
        notificationLog w @
          (if length urls = 1
           then NotificationCreated (nextNotificationId w) ''Adding download...'' (Some (hd urls))
           else NotificationCreated (nextNotificationId w)
                  (''Adding '' @ showNat (length urls) @ '' downloads...'') None) #
          (if resolvedItems env urls = [] then []
           else (case createOutcome env (createRequestOf env urls path) (server w) of
                   Fulfilled result \<Rightarrow> []
                 | Rejected e \<Rightarrow>
                     [NotificationUpdated (nextNotificationId w) ''Failed to add download''
                        (Some ''Unexpected error; please check your settings and try again'')]))"
  using addDownloadTasksAndPoll_run [OF assms, of env path w]
  by (auto simp: startNotification_def)

lemma demo_resolved_two:
  "resolvedItems (demoEnv h g r) [''magnet:?xt=urn:btih:abc'', ''ftp://h/f.iso''] =
     [Url ''magnet:?xt=urn:btih:abc'', Url ''ftp://h/f.iso'']"
  by (simp add: resolvedItems_def maybeMapUrlToFile_def rejectUnknownUrls_def
      startsWithAnyProtocol_def AUTO_DOWNLOAD_TORRENT_FILE_PROTOCOLS_def DOWNLOADABLE_PROTOCOLS_def)

text \<open>Two URLs are submitted and the create call is rejected: the plural notification
  is created and then updated with the unexpected-error text.\<close>

theorem addDownloadTasksAndPoll_notifications_witness:
  "[''magnet:?xt=urn:btih:abc'', ''ftp://h/f.iso''] \<noteq> []
   \<and> notificationLog (snd (addDownloadTasksAndPoll (demoEnv noHttp noHttp (\<lambda>k. False))
        [''magnet:?xt=urn:btih:abc'', ''ftp://h/f.iso''] None (demoWorld ([], [])))) =
      [NotificationCreated 0 ''Adding 2 downloads...'' None,
       NotificationUpdated 0 ''Failed to add download''
         (Some ''Unexpected error; please check your settings and try again'')]"
proof -
  let ?env = "demoEnv noHttp noHttp (\<lambda>k. False)"
  let ?urls = "[''magnet:?xt=urn:btih:abc'', ''ftp://h/f.iso'']"
  have ne: "?urls \<noteq> []" by simp
  have out: "createOutcome ?env (createRequestOf ?env ?urls None) (server (demoWorld ([], []))) =
      Rejected ''no response''"
    by (simp add: createOutcome_def wrapInNoPermissionsRetry_def demoEnv_def demoWorld_def)
  have two: "showNat (length ?urls) = ''2''"
    by code_simp
  have w: "notificationLog (demoWorld ([], [])) = []" "nextNotificationId (demoWorld ([], [])) = 0"
    by (simp_all add: demoWorld_def)
  have "notificationLog (snd (addDownloadTasksAndPoll ?env ?urls None (demoWorld ([], [])))) =
      [NotificationCreated 0 ''Adding 2 downloads...'' None,
       NotificationUpdated 0 ''Failed to add download''
         (Some ''Unexpected error; please check your settings and try again'')]"
    using addDownloadTasksAndPoll_notifications [OF ne, of ?env None "demoWorld ([], [])"]
    unfolding out demo_resolved_two two w by simp
  with ne show ?thesis by blast
qed

end
